theory Spec2Isabelle
  imports Main
begin

section \<open>Strings of the service\<close>

text \<open>
  A JavaScript string is modelled as a \<^typ>\<open>string\<close>: a list of code units, each below 256
  (the Latin-1 range). \<open>String.prototype.trim\<close> removes white space and line terminators
  from both ends; in this range they are TAB, LF, VT, FF, CR, SP and NBSP.
\<close>

definition isWhiteSpace :: "char \<Rightarrow> bool" where
  "isWhiteSpace c = (c \<in> {CHR 0x09, CHR 0x0A, CHR 0x0B, CHR 0x0C, CHR 0x0D, CHR 0x20, CHR 0xA0})"

definition trim :: "string \<Rightarrow> string" where
  "trim s = rev (dropWhile isWhiteSpace (rev (dropWhile isWhiteSpace s)))"

text \<open>The template literals \<open>`feed:${feed_id}:likeCount`\<close> and \<open>`feed:${feed_id}:commentCount`\<close>.\<close>

definition likeCountKey :: "string \<Rightarrow> string" where
  "likeCountKey feed_id = ''feed:'' @ feed_id @ '':likeCount''"

definition commentCountKey :: "string \<Rightarrow> string" where
  "commentCountKey feed_id = ''feed:'' @ feed_id @ '':commentCount''"

text \<open>
  A JavaScript number, as far as \<open>parseInt\<close> yields one: \<open>NaN\<close>, an integer that is a
  double (\<open>Num 0\<close> is \<open>+0\<close>), the two infinities and \<open>-0\<close>.
\<close>

datatype number = NaN | Num int | Infinity | NegInfinity | NegZero

definition isDigit :: "char \<Rightarrow> bool" where
  "isDigit c = (c \<in> set ''0123456789'')"

definition digitValue :: "char \<Rightarrow> nat" where
  "digitValue c = of_char c - 48"

definition digitsValue :: "string \<Rightarrow> nat" where
  "digitsValue ds = foldl (\<lambda>acc c. 10 * acc + digitValue c) 0 ds"

text \<open>The number of binary digits of a natural number.\<close>

fun bitLength :: "nat \<Rightarrow> nat" where
  "bitLength n = (if n = 0 then 0 else Suc (bitLength (n div 2)))"

declare bitLength.simps [simp del]

text \<open>
  The double nearest to an integer with sign \<open>neg\<close> and magnitude \<open>m\<close>: the magnitude
  keeps its 53 leading binary digits, rounded to nearest with ties to even; a magnitude
  that rounds to \<open>2^1024\<close> or more is infinite. Up to \<open>2^53\<close> nothing is rounded.
\<close>

definition toDouble :: "bool \<Rightarrow> nat \<Rightarrow> number" where
  "toDouble neg m =
     (if m = 0 then (if neg then NegZero else Num 0)
      else
        let e = bitLength m - 53;
            q = m div 2 ^ e;
            r = m mod 2 ^ e;
            up = (e \<noteq> 0 \<and> (2 ^ (e - 1) < r \<or> (r = 2 ^ (e - 1) \<and> odd q)));
            v = (if up then q + 1 else q) * 2 ^ e
        in if 2 ^ 1024 \<le> v then (if neg then NegInfinity else Infinity)
           else Num (if neg then - int v else int v))"

text \<open>
  \<open>parseInt(s, 10)\<close>: leading white space is skipped, one sign is read, then the longest
  run of decimal digits; with no digit the result is \<open>NaN\<close>, otherwise the double
  nearest to the signed value of the digits (the language lets an implementation read
  digits after the twentieth as zeros; the engine that runs the service reads them all).
\<close>

definition parseInt10 :: "string \<Rightarrow> number" where
  "parseInt10 s =
     (let t = dropWhile isWhiteSpace s;
          neg = (case t of c # _ \<Rightarrow> c = CHR ''-'' | [] \<Rightarrow> False);
          u = (case t of c # r \<Rightarrow> if c = CHR ''-'' \<or> c = CHR ''+'' then r else t | [] \<Rightarrow> t);
          z = takeWhile isDigit u
      in if z = [] then NaN else toDouble neg (digitsValue z))"

section \<open>The collaborators\<close>

text \<open>
  \<open>feedModel\<close> (the Store) and \<open>redisHandle\<close> (the Cache) are required modules whose code
  is outside the service file. The service is modelled over any implementation of them:
  a record of operations on a store state \<open>'s\<close> and a cache state \<open>'c\<close>. A rejected
  promise is \<open>Inl\<close> of the error's message. Reading operations return a result only;
  writing operations return a result and the next state, also when they fail. \<open>'r\<close> is
  the type of the results that the service hands through unread.
\<close>

record feed =
  f_feed_id :: string
  f_firebase_uid :: string
  f_description :: string

record ('s, 'r) feedModel =
  fm_createFeed :: "string \<Rightarrow> string \<Rightarrow> 's \<Rightarrow> (string + string) \<times> 's"
  fm_addFeedImages :: "string \<Rightarrow> string list \<Rightarrow> 's \<Rightarrow> (string + 'r) \<times> 's"
  fm_getFeedById :: "string \<Rightarrow> 's \<Rightarrow> string + feed option"
  fm_getAllFeeds :: "'s \<Rightarrow> string + feed list"
  fm_updateFeed :: "string \<Rightarrow> string \<Rightarrow> 's \<Rightarrow> (string + 'r) \<times> 's"
  fm_deleteFeed :: "string \<Rightarrow> 's \<Rightarrow> (string + 'r) \<times> 's"
  fm_updateFeedImage :: "string \<Rightarrow> string \<Rightarrow> string \<Rightarrow> 's \<Rightarrow> (string + 'r) \<times> 's"
  fm_getFeedImageCount :: "string \<Rightarrow> 's \<Rightarrow> string + int"
  fm_deleteFeedImage :: "string \<Rightarrow> string \<Rightarrow> 's \<Rightarrow> (string + 'r) \<times> 's"
  fm_checkLikeStatus :: "string \<Rightarrow> string \<Rightarrow> 's \<Rightarrow> string + bool"
  fm_likeFeed :: "string \<Rightarrow> string \<Rightarrow> 's \<Rightarrow> (string + 'r) \<times> 's"
  fm_unlikeFeed :: "string \<Rightarrow> string \<Rightarrow> 's \<Rightarrow> (string + 'r) \<times> 's"
  fm_getLikeCount :: "string \<Rightarrow> 's \<Rightarrow> string + int"
  fm_getCommentCount :: "string \<Rightarrow> 's \<Rightarrow> string + int"

text \<open>
  \<open>redisHandle.get\<close> is awaited: it yields the stored string, \<open>None\<close> for \<open>null\<close>, or
  fails (by throwing or by rejecting, which \<open>await\<close> does not tell apart).
  \<open>redisHandle.setex\<close> and \<open>redisHandle.del\<close> are called without \<open>await\<close>, inside the
  \<open>try\<close> block. Such a call has one of three fates: it throws before it returns; it
  returns a promise that rejects later; it returns and nothing fails.
\<close>

datatype fate = Throws string | Rejects string | Fulfils

record 'c redisHandle =
  rh_get :: "string \<Rightarrow> 'c \<Rightarrow> string + string option"
  rh_setex :: "string \<Rightarrow> nat \<Rightarrow> int \<Rightarrow> 'c \<Rightarrow> fate \<times> 'c"
  rh_del :: "string \<Rightarrow> 'c \<Rightarrow> fate \<times> 'c"

text \<open>Every call made to a collaborator, with its arguments, in the order of the calls.\<close>

datatype call =
    FM_createFeed string string
  | FM_addFeedImages string "string list"
  | FM_getFeedById string
  | FM_getAllFeeds
  | FM_updateFeed string string
  | FM_deleteFeed string
  | FM_updateFeedImage string string string
  | FM_getFeedImageCount string
  | FM_deleteFeedImage string string
  | FM_checkLikeStatus string string
  | FM_likeFeed string string
  | FM_unlikeFeed string string
  | FM_getLikeCount string
  | FM_getCommentCount string
  | RH_get string
  | RH_setex string nat int
  | RH_del string

text \<open>
  The world an operation runs in: the Store, the Cache, the calls made so far, the lines
  written by \<open>console.error\<close>, and the messages of the rejections of promises that
  nobody awaits.
\<close>

record ('s, 'c) world =
  store :: 's
  cache :: 'c
  calls :: "call list"
  console :: "string list"
  unhandled :: "string list"

section \<open>Asynchronous functions\<close>

text \<open>
  An \<open>async\<close> function is a function of the world that returns the value it resolves to
  (\<open>Inr\<close>) or the message of the error it rejects with (\<open>Inl\<close>), and the world it leaves.
  Every thrown value is an \<open>Error\<close> with a string message, which is all that
  \<open>handleError\<close> reads of it. One operation runs from its call to its return with no
  other operation in between; a call that is not awaited takes its effect where it is
  made. When such a call throws, the \<open>try\<close> block is left as by any other throw; when
  its promise rejects, the rejection goes to the unhandled ones and the block goes on.
\<close>

type_synonym ('w, 'a) prog = "'w \<Rightarrow> (string + 'a) \<times> 'w"

definition resolve :: "'a \<Rightarrow> ('w, 'a) prog" where
  "resolve x w = (Inr x, w)"

definition throw :: "string \<Rightarrow> ('w, 'a) prog" where
  "throw message w = (Inl message, w)"

definition await :: "('w, 'a) prog \<Rightarrow> ('a \<Rightarrow> ('w, 'b) prog) \<Rightarrow> ('w, 'b) prog" where
  "await m k w = (case m w of (Inl e, w') \<Rightarrow> (Inl e, w') | (Inr x, w') \<Rightarrow> k x w')"

definition unawaited ::
  "(('s, 'c) world \<Rightarrow> fate \<times> ('s, 'c) world) \<Rightarrow> (('s, 'c) world, 'a) prog
     \<Rightarrow> (('s, 'c) world, 'a) prog" where
  "unawaited f k w =
     (case f w of
        (Throws m, w') \<Rightarrow> (Inl m, w')
      | (Rejects m, w') \<Rightarrow> k (w'\<lparr>unhandled := unhandled w' @ [m]\<rparr>)
      | (Fulfils, w') \<Rightarrow> k w')"

definition tryCatch :: "('w, 'a) prog \<Rightarrow> (string \<Rightarrow> ('w, 'a) prog) \<Rightarrow> ('w, 'a) prog" where
  "tryCatch body handler w =
     (case body w of (Inl e, w') \<Rightarrow> handler e w' | (Inr x, w') \<Rightarrow> (Inr x, w'))"

definition storeRead :: "call \<Rightarrow> ('s \<Rightarrow> string + 'a) \<Rightarrow> (('s, 'c) world, 'a) prog" where
  "storeRead c f w = (f (store w), w\<lparr>calls := calls w @ [c]\<rparr>)"

definition storeWrite ::
  "call \<Rightarrow> ('s \<Rightarrow> (string + 'a) \<times> 's) \<Rightarrow> (('s, 'c) world, 'a) prog" where
  "storeWrite c f w =
     (case f (store w) of (r, s') \<Rightarrow> (r, w\<lparr>store := s', calls := calls w @ [c]\<rparr>))"

definition redisGet :: "'c redisHandle \<Rightarrow> string \<Rightarrow> (('s, 'c) world, string option) prog" where
  "redisGet rh key w = (rh_get rh key (cache w), w\<lparr>calls := calls w @ [RH_get key]\<rparr>)"

definition redisSetex ::
  "'c redisHandle \<Rightarrow> string \<Rightarrow> nat \<Rightarrow> int \<Rightarrow> ('s, 'c) world \<Rightarrow> fate \<times> ('s, 'c) world" where
  "redisSetex rh key ttl v w =
     (case rh_setex rh key ttl v (cache w) of
        (ft, c') \<Rightarrow> (ft, w\<lparr>cache := c', calls := calls w @ [RH_setex key ttl v]\<rparr>))"

definition redisDel ::
  "'c redisHandle \<Rightarrow> string \<Rightarrow> ('s, 'c) world \<Rightarrow> fate \<times> ('s, 'c) world" where
  "redisDel rh key w =
     (case rh_del rh key (cache w) of
        (ft, c') \<Rightarrow> (ft, w\<lparr>cache := c', calls := calls w @ [RH_del key]\<rparr>))"

section \<open>feedService.js\<close>

text \<open>\<open>handleError\<close>: write the line to \<open>console.error\<close>, throw an error with the same message.\<close>

definition handleError :: "string \<Rightarrow> string \<Rightarrow> (('s, 'c) world, 'a) prog" where
  "handleError action message w =
     (Inl message, w\<lparr>console := console w @ [''Error '' @ action @ '': '' @ message]\<rparr>)"

text \<open>
  Each exported function is a \<open>try\<close> block (the definition with suffix \<open>_try\<close>) whose
  \<open>catch\<close> clause calls \<open>handleError\<close> with the name of the action.
\<close>

definition createFeed_try ::
  "('s, 'r) feedModel \<Rightarrow> 'c redisHandle \<Rightarrow> string \<Rightarrow> string \<Rightarrow> string list option
     \<Rightarrow> (('s, 'c) world, string) prog" where
  "createFeed_try fm rh firebase_uid description imageUrls =
     await (storeWrite (FM_createFeed firebase_uid description)
              (fm_createFeed fm firebase_uid description)) (\<lambda>feedId.
     await (case imageUrls of
              Some (u # us) \<Rightarrow>
                await (storeWrite (FM_addFeedImages feedId (u # us))
                         (fm_addFeedImages fm feedId (u # us))) (\<lambda>_. resolve ())
            | _ \<Rightarrow> resolve ()) (\<lambda>_.
     unawaited (redisDel rh (likeCountKey feedId)) (
     unawaited (redisDel rh (commentCountKey feedId)) (
     resolve feedId))))"

definition createFeed ::
  "('s, 'r) feedModel \<Rightarrow> 'c redisHandle \<Rightarrow> string \<Rightarrow> string \<Rightarrow> string list option
     \<Rightarrow> (('s, 'c) world, string) prog" where
  "createFeed fm rh firebase_uid description imageUrls =
     tryCatch (createFeed_try fm rh firebase_uid description imageUrls)
       (handleError ''creating feed'')"

definition getFeedById_try ::
  "('s, 'r) feedModel \<Rightarrow> 'c redisHandle \<Rightarrow> string \<Rightarrow> (('s, 'c) world, feed option) prog" where
  "getFeedById_try fm rh feed_id =
     storeRead (FM_getFeedById (trim feed_id)) (fm_getFeedById fm (trim feed_id))"

definition getFeedById ::
  "('s, 'r) feedModel \<Rightarrow> 'c redisHandle \<Rightarrow> string \<Rightarrow> (('s, 'c) world, feed option) prog" where
  "getFeedById fm rh feed_id =
     tryCatch (getFeedById_try fm rh feed_id) (handleError ''retrieving feed'')"



definition updateFeed_try ::
  "('s, 'r) feedModel \<Rightarrow> 'c redisHandle \<Rightarrow> string \<Rightarrow> string \<Rightarrow> string
     \<Rightarrow> (('s, 'c) world, 'r) prog" where
  "updateFeed_try fm rh feed_id0 firebase_uid description =
     (let feed_id = trim feed_id0 in
      await (storeRead (FM_getFeedById feed_id) (fm_getFeedById fm feed_id)) (\<lambda>feed.
      case feed of
        None \<Rightarrow> throw ''Feed not found''
      | Some f \<Rightarrow>
          if f_firebase_uid f \<noteq> firebase_uid then throw ''Permission denied''
          else
            unawaited (redisDel rh (likeCountKey feed_id)) (
            unawaited (redisDel rh (commentCountKey feed_id)) (
            storeWrite (FM_updateFeed feed_id description)
              (fm_updateFeed fm feed_id description)))))"

definition updateFeed ::
  "('s, 'r) feedModel \<Rightarrow> 'c redisHandle \<Rightarrow> string \<Rightarrow> string \<Rightarrow> string
     \<Rightarrow> (('s, 'c) world, 'r) prog" where
  "updateFeed fm rh feed_id firebase_uid description =
     tryCatch (updateFeed_try fm rh feed_id firebase_uid description)
       (handleError ''updating feed'')"

definition deleteFeed_try ::
  "('s, 'r) feedModel \<Rightarrow> 'c redisHandle \<Rightarrow> string \<Rightarrow> string \<Rightarrow> (('s, 'c) world, 'r) prog" where
  "deleteFeed_try fm rh feed_id0 firebase_uid =
     (let feed_id = trim feed_id0 in
      await (storeRead (FM_getFeedById feed_id) (fm_getFeedById fm feed_id)) (\<lambda>feed.
      case feed of
        None \<Rightarrow> throw ''Feed not found''
      | Some f \<Rightarrow>
          if f_firebase_uid f \<noteq> firebase_uid then throw ''Permission denied''
          else
            unawaited (redisDel rh (likeCountKey feed_id)) (
            unawaited (redisDel rh (commentCountKey feed_id)) (
            storeWrite (FM_deleteFeed feed_id) (fm_deleteFeed fm feed_id)))))"

definition deleteFeed ::
  "('s, 'r) feedModel \<Rightarrow> 'c redisHandle \<Rightarrow> string \<Rightarrow> string \<Rightarrow> (('s, 'c) world, 'r) prog" where
  "deleteFeed fm rh feed_id firebase_uid =
     tryCatch (deleteFeed_try fm rh feed_id firebase_uid) (handleError ''deleting feed'')"

definition updateFeedImage_try ::
  "('s, 'r) feedModel \<Rightarrow> 'c redisHandle \<Rightarrow> string \<Rightarrow> string \<Rightarrow> string \<Rightarrow> string
     \<Rightarrow> (('s, 'c) world, 'r) prog" where
  "updateFeedImage_try fm rh firebase_uid feed_id image_id newImageUrl =
     await (storeRead (FM_getFeedById feed_id) (fm_getFeedById fm feed_id)) (\<lambda>feed.
     case feed of
       None \<Rightarrow> throw ''Feed not found''
     | Some f \<Rightarrow>
         if f_firebase_uid f \<noteq> firebase_uid then throw ''Permission denied''
         else
           storeWrite (FM_updateFeedImage feed_id image_id newImageUrl)
             (fm_updateFeedImage fm feed_id image_id newImageUrl))"

definition updateFeedImage ::
  "('s, 'r) feedModel \<Rightarrow> 'c redisHandle \<Rightarrow> string \<Rightarrow> string \<Rightarrow> string \<Rightarrow> string
     \<Rightarrow> (('s, 'c) world, 'r) prog" where
  "updateFeedImage fm rh firebase_uid feed_id image_id newImageUrl =
     tryCatch (updateFeedImage_try fm rh firebase_uid feed_id image_id newImageUrl)
       (handleError ''updating feed image'')"

definition deleteFeedImage_try ::
  "('s, 'r) feedModel \<Rightarrow> 'c redisHandle \<Rightarrow> string \<Rightarrow> string \<Rightarrow> string
     \<Rightarrow> (('s, 'c) world, 'r) prog" where
  "deleteFeedImage_try fm rh firebase_uid feed_id image_id =
     await (storeRead (FM_getFeedById feed_id) (fm_getFeedById fm feed_id)) (\<lambda>feed.
     case feed of
       None \<Rightarrow> throw ''Feed not found''
     | Some f \<Rightarrow>
         if f_firebase_uid f \<noteq> firebase_uid then throw ''Permission denied''
         else
           await (storeRead (FM_getFeedImageCount feed_id) (fm_getFeedImageCount fm feed_id))
             (\<lambda>imageCount.
           if imageCount \<le> 1
           then throw ''Can't delete last image, need at least one image''
           else
             storeWrite (FM_deleteFeedImage feed_id image_id)
               (fm_deleteFeedImage fm feed_id image_id)))"

definition deleteFeedImage ::
  "('s, 'r) feedModel \<Rightarrow> 'c redisHandle \<Rightarrow> string \<Rightarrow> string \<Rightarrow> string
     \<Rightarrow> (('s, 'c) world, 'r) prog" where
  "deleteFeedImage fm rh firebase_uid feed_id image_id =
     tryCatch (deleteFeedImage_try fm rh firebase_uid feed_id image_id)
       (handleError ''deleting feed image'')"

definition likeFeed_try ::
  "('s, 'r) feedModel \<Rightarrow> 'c redisHandle \<Rightarrow> string \<Rightarrow> string \<Rightarrow> (('s, 'c) world, bool) prog" where
  "likeFeed_try fm rh firebase_uid feed_id0 =
     (let feed_id = trim feed_id0 in
      await (storeRead (FM_getFeedById feed_id) (fm_getFeedById fm feed_id)) (\<lambda>feed.
      case feed of
        None \<Rightarrow> throw ''Feed not found''
      | Some f \<Rightarrow>
          await (storeRead (FM_checkLikeStatus firebase_uid feed_id)
                   (fm_checkLikeStatus fm firebase_uid feed_id)) (\<lambda>alreadyLiked.
          if alreadyLiked then throw ''Already liked this feed''
          else
            await (storeWrite (FM_likeFeed firebase_uid feed_id)
                     (fm_likeFeed fm firebase_uid feed_id)) (\<lambda>_.
            unawaited (redisDel rh (likeCountKey feed_id)) (
            resolve True)))))"

definition likeFeed ::
  "('s, 'r) feedModel \<Rightarrow> 'c redisHandle \<Rightarrow> string \<Rightarrow> string \<Rightarrow> (('s, 'c) world, bool) prog" where
  "likeFeed fm rh firebase_uid feed_id =
     tryCatch (likeFeed_try fm rh firebase_uid feed_id) (handleError ''liking feed'')"

definition unlikeFeed_try ::
  "('s, 'r) feedModel \<Rightarrow> 'c redisHandle \<Rightarrow> string \<Rightarrow> string \<Rightarrow> (('s, 'c) world, bool) prog" where
  "unlikeFeed_try fm rh firebase_uid feed_id0 =
     (let feed_id = trim feed_id0 in
      await (storeRead (FM_getFeedById feed_id) (fm_getFeedById fm feed_id)) (\<lambda>feed.
      case feed of
        None \<Rightarrow> throw ''Feed not found''
      | Some f \<Rightarrow>
          await (storeRead (FM_checkLikeStatus firebase_uid feed_id)
                   (fm_checkLikeStatus fm firebase_uid feed_id)) (\<lambda>alreadyLiked.
          if \<not> alreadyLiked then throw ''Not liked this feed before, cannot unlike''
          else
            await (storeWrite (FM_unlikeFeed firebase_uid feed_id)
                     (fm_unlikeFeed fm firebase_uid feed_id)) (\<lambda>_.
            unawaited (redisDel rh (likeCountKey feed_id)) (
            resolve True)))))"

definition unlikeFeed ::
  "('s, 'r) feedModel \<Rightarrow> 'c redisHandle \<Rightarrow> string \<Rightarrow> string \<Rightarrow> (('s, 'c) world, bool) prog" where
  "unlikeFeed fm rh firebase_uid feed_id =
     tryCatch (unlikeFeed_try fm rh firebase_uid feed_id) (handleError ''unliking feed'')"

definition checkLikeStatus_try ::
  "('s, 'r) feedModel \<Rightarrow> 'c redisHandle \<Rightarrow> string \<Rightarrow> string \<Rightarrow> (('s, 'c) world, bool) prog" where
  "checkLikeStatus_try fm rh firebase_uid feed_id0 =
     (let feed_id = trim feed_id0 in
      await (storeRead (FM_getFeedById feed_id) (fm_getFeedById fm feed_id)) (\<lambda>feed.
      case feed of
        None \<Rightarrow> throw ''Feed not found''
      | Some f \<Rightarrow>
          storeRead (FM_checkLikeStatus firebase_uid feed_id)
            (fm_checkLikeStatus fm firebase_uid feed_id)))"

definition checkLikeStatus ::
  "('s, 'r) feedModel \<Rightarrow> 'c redisHandle \<Rightarrow> string \<Rightarrow> string \<Rightarrow> (('s, 'c) world, bool) prog" where
  "checkLikeStatus fm rh firebase_uid feed_id =
     tryCatch (checkLikeStatus_try fm rh firebase_uid feed_id)
       (handleError ''checking like status'')"

text \<open>
  \<open>if (cachedLikeCount)\<close>: \<open>null\<close> and the empty string are falsy, every other string is
  truthy.
\<close>

definition truthy :: "string option \<Rightarrow> bool" where
  "truthy v = (case v of None \<Rightarrow> False | Some s \<Rightarrow> s \<noteq> [])"

definition getLikeCount_try ::
  "('s, 'r) feedModel \<Rightarrow> 'c redisHandle \<Rightarrow> string \<Rightarrow> (('s, 'c) world, number) prog" where
  "getLikeCount_try fm rh feed_id0 =
     (let feed_id = trim feed_id0 in
      await (redisGet rh (likeCountKey feed_id)) (\<lambda>cachedLikeCount.
      case (if truthy cachedLikeCount then cachedLikeCount else None) of
        Some v \<Rightarrow> resolve (parseInt10 v)
      | None \<Rightarrow>
        await (storeRead (FM_getFeedById feed_id) (fm_getFeedById fm feed_id)) (\<lambda>feed.
        case feed of
          None \<Rightarrow> throw ''Feed not found''
        | Some f \<Rightarrow>
            await (storeRead (FM_getLikeCount feed_id) (fm_getLikeCount fm feed_id))
              (\<lambda>likeCount.
            unawaited (redisSetex rh (likeCountKey feed_id) 600 likeCount) (
            resolve (Num likeCount))))))"

definition getLikeCount ::
  "('s, 'r) feedModel \<Rightarrow> 'c redisHandle \<Rightarrow> string \<Rightarrow> (('s, 'c) world, number) prog" where
  "getLikeCount fm rh feed_id =
     tryCatch (getLikeCount_try fm rh feed_id) (handleError ''getting like count'')"

definition getCommentCount_try ::
  "('s, 'r) feedModel \<Rightarrow> 'c redisHandle \<Rightarrow> string \<Rightarrow> (('s, 'c) world, number) prog" where
  "getCommentCount_try fm rh feed_id0 =
     (let feed_id = trim feed_id0 in
      await (redisGet rh (commentCountKey feed_id)) (\<lambda>cachedCommentCount.
      case (if truthy cachedCommentCount then cachedCommentCount else None) of
        Some v \<Rightarrow> resolve (parseInt10 v)
      | None \<Rightarrow>
        await (storeRead (FM_getFeedById feed_id) (fm_getFeedById fm feed_id)) (\<lambda>feed.
        case feed of
          None \<Rightarrow> throw ''Feed not found''
        | Some f \<Rightarrow>
            await (storeRead (FM_getCommentCount feed_id) (fm_getCommentCount fm feed_id))
              (\<lambda>commentCount.
            unawaited (redisSetex rh (commentCountKey feed_id) 600 commentCount) (
            resolve (Num commentCount))))))"

definition getCommentCount ::
  "('s, 'r) feedModel \<Rightarrow> 'c redisHandle \<Rightarrow> string \<Rightarrow> (('s, 'c) world, number) prog" where
  "getCommentCount fm rh feed_id =
     tryCatch (getCommentCount_try fm rh feed_id) (handleError ''getting comment count'')"

section \<open>A reference Store and Cache\<close>

text \<open>Decimal notation of a number, as \<open>String(n)\<close> writes it.\<close>

fun decimal :: "nat \<Rightarrow> string" where
  "decimal n =
     (if n < 10 then [''0123456789'' ! n]
      else decimal (n div 10) @ [''0123456789'' ! (n mod 10)])"

declare decimal.simps [simp del]

definition showInt :: "int \<Rightarrow> string" where
  "showInt v = (if v < 0 then ''-'' @ decimal (nat (- v)) else decimal (nat v))"

text \<open>
  Modelled from the spec: the Store, whose module \<open>model/feedModel\<close> is required by the
  service and is not part of it. Feeds, images (identity, owning feed, reference), likes
  (user, feed) and comments (owning feed) are kept in lists; identities are drawn from a
  counter and compared exactly. A result of type \<open>nat\<close> is the number of rows written.
\<close>

record refStore =
  rs_feeds :: "feed list"
  rs_images :: "(string \<times> string \<times> string) list"
  rs_likes :: "(string \<times> string) list"
  rs_comments :: "string list"
  rs_next :: nat

fun removeFirst :: "('a \<Rightarrow> bool) \<Rightarrow> 'a list \<Rightarrow> 'a list" where
  "removeFirst P [] = []"
| "removeFirst P (x # xs) = (if P x then xs else x # removeFirst P xs)"

definition imagesOf :: "string \<Rightarrow> refStore \<Rightarrow> (string \<times> string \<times> string) list" where
  "imagesOf feed_id s = filter (\<lambda>x. fst (snd x) = feed_id) (rs_images s)"

definition ref_createFeed :: "string \<Rightarrow> string \<Rightarrow> refStore \<Rightarrow> (string + string) \<times> refStore" where
  "ref_createFeed firebase_uid description s =
     (Inr (decimal (rs_next s)),
      s\<lparr>rs_feeds := rs_feeds s @
           [\<lparr>f_feed_id = decimal (rs_next s), f_firebase_uid = firebase_uid,
             f_description = description\<rparr>],
        rs_next := Suc (rs_next s)\<rparr>)"

definition ref_addFeedImages ::
  "string \<Rightarrow> string list \<Rightarrow> refStore \<Rightarrow> (string + nat) \<times> refStore" where
  "ref_addFeedImages feed_id imageUrls s =
     (Inr (length imageUrls),
      s\<lparr>rs_images := rs_images s @
           map (\<lambda>(n, u). (decimal n, feed_id, u))
             (zip [rs_next s ..< rs_next s + length imageUrls] imageUrls),
        rs_next := rs_next s + length imageUrls\<rparr>)"

definition ref_getFeedById :: "string \<Rightarrow> refStore \<Rightarrow> string + feed option" where
  "ref_getFeedById feed_id s = Inr (find (\<lambda>f. f_feed_id f = feed_id) (rs_feeds s))"

definition ref_getAllFeeds :: "refStore \<Rightarrow> string + feed list" where
  "ref_getAllFeeds s = Inr (rs_feeds s)"

definition ref_updateFeed :: "string \<Rightarrow> string \<Rightarrow> refStore \<Rightarrow> (string + nat) \<times> refStore" where
  "ref_updateFeed feed_id description s =
     (Inr (length (filter (\<lambda>f. f_feed_id f = feed_id) (rs_feeds s))),
      s\<lparr>rs_feeds :=
           map (\<lambda>f. if f_feed_id f = feed_id then f\<lparr>f_description := description\<rparr> else f)
             (rs_feeds s)\<rparr>)"

definition ref_deleteFeed :: "string \<Rightarrow> refStore \<Rightarrow> (string + nat) \<times> refStore" where
  "ref_deleteFeed feed_id s =
     (Inr (length (filter (\<lambda>f. f_feed_id f = feed_id) (rs_feeds s))),
      s\<lparr>rs_feeds := filter (\<lambda>f. f_feed_id f \<noteq> feed_id) (rs_feeds s),
        rs_images := filter (\<lambda>x. fst (snd x) \<noteq> feed_id) (rs_images s),
        rs_likes := filter (\<lambda>l. snd l \<noteq> feed_id) (rs_likes s),
        rs_comments := filter (\<lambda>f. f \<noteq> feed_id) (rs_comments s)\<rparr>)"

definition ref_updateFeedImage ::
  "string \<Rightarrow> string \<Rightarrow> string \<Rightarrow> refStore \<Rightarrow> (string + nat) \<times> refStore" where
  "ref_updateFeedImage feed_id image_id newImageUrl s =
     (Inr (length (filter (\<lambda>x. fst x = image_id \<and> fst (snd x) = feed_id) (rs_images s))),
      s\<lparr>rs_images :=
           map (\<lambda>x. if fst x = image_id \<and> fst (snd x) = feed_id
                     then (image_id, feed_id, newImageUrl) else x)
             (rs_images s)\<rparr>)"

definition ref_getFeedImageCount :: "string \<Rightarrow> refStore \<Rightarrow> string + int" where
  "ref_getFeedImageCount feed_id s = Inr (int (length (imagesOf feed_id s)))"

definition ref_deleteFeedImage ::
  "string \<Rightarrow> string \<Rightarrow> refStore \<Rightarrow> (string + nat) \<times> refStore" where
  "ref_deleteFeedImage feed_id image_id s =
     (Inr (if \<exists>x \<in> set (rs_images s). fst x = image_id \<and> fst (snd x) = feed_id then 1 else 0),
      s\<lparr>rs_images :=
           removeFirst (\<lambda>x. fst x = image_id \<and> fst (snd x) = feed_id) (rs_images s)\<rparr>)"

definition ref_checkLikeStatus :: "string \<Rightarrow> string \<Rightarrow> refStore \<Rightarrow> string + bool" where
  "ref_checkLikeStatus firebase_uid feed_id s = Inr ((firebase_uid, feed_id) \<in> set (rs_likes s))"

definition ref_likeFeed :: "string \<Rightarrow> string \<Rightarrow> refStore \<Rightarrow> (string + nat) \<times> refStore" where
  "ref_likeFeed firebase_uid feed_id s =
     (Inr 1, s\<lparr>rs_likes := rs_likes s @ [(firebase_uid, feed_id)]\<rparr>)"

definition ref_unlikeFeed :: "string \<Rightarrow> string \<Rightarrow> refStore \<Rightarrow> (string + nat) \<times> refStore" where
  "ref_unlikeFeed firebase_uid feed_id s =
     (Inr (length (filter (\<lambda>l. l = (firebase_uid, feed_id)) (rs_likes s))),
      s\<lparr>rs_likes := filter (\<lambda>l. l \<noteq> (firebase_uid, feed_id)) (rs_likes s)\<rparr>)"

definition ref_getLikeCount :: "string \<Rightarrow> refStore \<Rightarrow> string + int" where
  "ref_getLikeCount feed_id s = Inr (int (length (filter (\<lambda>l. snd l = feed_id) (rs_likes s))))"

definition ref_getCommentCount :: "string \<Rightarrow> refStore \<Rightarrow> string + int" where
  "ref_getCommentCount feed_id s =
     Inr (int (length (filter (\<lambda>f. f = feed_id) (rs_comments s))))"

text \<open>
  Modelled from the spec: the module \<open>feedModel\<close> over the reference Store, one field for
  each function the service calls.
\<close>

definition refFeedModel :: "(refStore, nat) feedModel" where
  "refFeedModel = \<lparr>
     fm_createFeed = ref_createFeed,
     fm_addFeedImages = ref_addFeedImages,
     fm_getFeedById = ref_getFeedById,
     fm_getAllFeeds = ref_getAllFeeds,
     fm_updateFeed = ref_updateFeed,
     fm_deleteFeed = ref_deleteFeed,
     fm_updateFeedImage = ref_updateFeedImage,
     fm_getFeedImageCount = ref_getFeedImageCount,
     fm_deleteFeedImage = ref_deleteFeedImage,
     fm_checkLikeStatus = ref_checkLikeStatus,
     fm_likeFeed = ref_likeFeed,
     fm_unlikeFeed = ref_unlikeFeed,
     fm_getLikeCount = ref_getLikeCount,
     fm_getCommentCount = ref_getCommentCount
   \<rparr>"


text \<open>
  Modelled from the spec: the Cache, whose module \<open>config/redisHandle\<close> is required by
  the service and is not part of it. A key holds a time-to-live in seconds and a string;
  \<open>get\<close> yields the string or nothing, \<open>setex\<close> writes the decimal notation of the
  number, \<open>del\<close> removes the key and is a no-op on a key that is not there.
\<close>

type_synonym refCache = "string \<rightharpoonup> nat \<times> string"

definition refRedisHandle :: "refCache redisHandle" where
  "refRedisHandle = \<lparr>
     rh_get = (\<lambda>key c. Inr (map_option snd (c key))),
     rh_setex = (\<lambda>key ttl v c. (Fulfils, c(key \<mapsto> (ttl, showInt v)))),
     rh_del = (\<lambda>key c. (Fulfils, c(key := None)))
   \<rparr>"


text \<open>
  Modelled from the spec: a Cache module that reads as the reference Cache does and has
  no \<open>setex\<close> and no \<open>del\<close>: calling either throws a \<open>TypeError\<close>.
\<close>

definition brokenRedisHandle :: "refCache redisHandle" where
  "brokenRedisHandle = \<lparr>
     rh_get = (\<lambda>key c. Inr (map_option snd (c key))),
     rh_setex = (\<lambda>key ttl v c. (Throws ''redisHandle.setex is not a function'', c)),
     rh_del = (\<lambda>key c. (Throws ''redisHandle.del is not a function'', c))
   \<rparr>"

section \<open>Notions of the specification\<close>

text \<open>
  The authoritative count of a feed: the feed is looked up in the Store, and the count is
  computed from the Store; an absent feed is the error \<open>Feed not found\<close>.
\<close>

definition authoritativeLikeCount ::
  "('s, 'r) feedModel \<Rightarrow> string \<Rightarrow> 's \<Rightarrow> string + number" where
  "authoritativeLikeCount fm feed_id s =
     (case fm_getFeedById fm feed_id s of
        Inl e \<Rightarrow> Inl e
      | Inr None \<Rightarrow> Inl ''Feed not found''
      | Inr (Some f) \<Rightarrow> map_sum id Num (fm_getLikeCount fm feed_id s))"

definition authoritativeCommentCount ::
  "('s, 'r) feedModel \<Rightarrow> string \<Rightarrow> 's \<Rightarrow> string + number" where
  "authoritativeCommentCount fm feed_id s =
     (case fm_getFeedById fm feed_id s of
        Inl e \<Rightarrow> Inl e
      | Inr None \<Rightarrow> Inl ''Feed not found''
      | Inr (Some f) \<Rightarrow> map_sum id Num (fm_getCommentCount fm feed_id s))"

text \<open>
  Contracts of the Cache: a deleted key reads as absent, and deleting a key leaves every
  other key as it reads.
\<close>

definition delRemoves :: "'c redisHandle \<Rightarrow> bool" where
  "delRemoves rh = (\<forall>key c. rh_get rh key (snd (rh_del rh key c)) = Inr None)"

definition delFrame :: "'c redisHandle \<Rightarrow> bool" where
  "delFrame rh =
     (\<forall>key key' c. key \<noteq> key' \<longrightarrow> rh_get rh key (snd (rh_del rh key' c)) = rh_get rh key c)"


text \<open>
  A further contract of the Cache: the \<open>setex\<close> call returns (it does not throw).
\<close>

definition setexReturns :: "'c redisHandle \<Rightarrow> bool" where
  "setexReturns rh = (\<forall>key ttl v c m. fst (rh_setex rh key ttl v c) \<noteq> Throws m)"

text \<open>
  What a read that goes to the Store for the count \<open>r\<close> yields: the count, unless the
  \<open>setex\<close> call that stores it throws; then the read fails with the message thrown.
\<close>

definition readThrough ::
  "'c redisHandle \<Rightarrow> string \<Rightarrow> 'c \<Rightarrow> string + number \<Rightarrow> string + number" where
  "readThrough rh key c r =
     (case r of
        Inr (Num n) \<Rightarrow>
          (case fst (rh_setex rh key 600 n c) of Throws m \<Rightarrow> Inl m | _ \<Rightarrow> Inr (Num n))
      | _ \<Rightarrow> r)"


text \<open>
  Contract of the Store for likes: a persisted like reads as \<open>LIKED\<close>, a persisted unlike
  as \<open>NOT_LIKED\<close>, and neither touches the feed.
\<close>

definition likeContract :: "('s, 'r) feedModel \<Rightarrow> bool" where
  "likeContract fm =
     (\<forall>u feed_id s r s'.
        (fm_likeFeed fm u feed_id s = (Inr r, s') \<longrightarrow>
           fm_checkLikeStatus fm u feed_id s' = Inr True \<and>
           fm_getFeedById fm feed_id s' = fm_getFeedById fm feed_id s) \<and>
        (fm_unlikeFeed fm u feed_id s = (Inr r, s') \<longrightarrow>
           fm_checkLikeStatus fm u feed_id s' = Inr False \<and>
           fm_getFeedById fm feed_id s' = fm_getFeedById fm feed_id s))"

text \<open>
  Contract of the Store for images: deleting an image of a feed takes at most one image
  from that feed and none from another.
\<close>

definition imageContract :: "('s, 'r) feedModel \<Rightarrow> bool" where
  "imageContract fm =
     (\<forall>feed_id image_id s g m.
        fm_getFeedImageCount fm g s = Inr m \<longrightarrow>
        (\<exists>m'. fm_getFeedImageCount fm g (snd (fm_deleteFeedImage fm feed_id image_id s)) = Inr m' \<and>
              (if g = feed_id then m - 1 \<le> m' else m' = m)))"

text \<open>
  An example world: the feed \<open>1\<close> of alice with two images, liked by bob, with two
  comments; a stale like count of the feed is cached (5, where the Store has one like),
  and so is a like count of the feed \<open>7\<close>, which the Store does not have.
\<close>

definition exampleStore :: refStore where
  "exampleStore = \<lparr>
     rs_feeds = [\<lparr>f_feed_id = ''1'', f_firebase_uid = ''alice'', f_description = ''hello''\<rparr>],
     rs_images = [(''2'', ''1'', ''a.jpg''), (''3'', ''1'', ''b.jpg'')],
     rs_likes = [(''bob'', ''1'')],
     rs_comments = [''1'', ''1''],
     rs_next = 4 \<rparr>"

definition exampleCache :: refCache where
  "exampleCache = [likeCountKey ''1'' \<mapsto> (600, ''5''),
      likeCountKey ''7'' \<mapsto> (600, ''9007199254740993'')]"

definition exampleWorld :: "(refStore, refCache) world" where
  "exampleWorld = \<lparr>store = exampleStore, cache = exampleCache, calls = [], console = [], unhandled = []\<rparr>"

section \<open>Unfolding\<close>

lemmas prog_defs = resolve_def throw_def await_def unawaited_def tryCatch_def storeRead_def
  storeWrite_def redisGet_def redisSetex_def redisDel_def handleError_def truthy_def Let_def

lemmas eval_defs = trim_def isWhiteSpace_def parseInt10_def isDigit_def digitsValue_def
  digitValue_def toDouble_def bitLength.simps showInt_def decimal.simps likeCountKey_def
  commentCountKey_def refFeedModel_def refRedisHandle_def exampleStore_def exampleCache_def
  exampleWorld_def imagesOf_def ref_createFeed_def ref_addFeedImages_def ref_getFeedById_def
  ref_getAllFeeds_def ref_updateFeed_def ref_deleteFeed_def ref_updateFeedImage_def
  ref_getFeedImageCount_def ref_deleteFeedImage_def ref_checkLikeStatus_def ref_likeFeed_def
  ref_unlikeFeed_def ref_getLikeCount_def ref_getCommentCount_def

section \<open>Decimal notation and \<open>parseInt\<close>\<close>

lemma digit_nth:
  assumes "k < 10"
  shows "isDigit (''0123456789'' ! k)" and "digitValue (''0123456789'' ! k) = k"
    and "\<not> isWhiteSpace (''0123456789'' ! k)"
    and "''0123456789'' ! k \<noteq> CHR ''-''" and "''0123456789'' ! k \<noteq> CHR ''+''"
proof -
  from assms consider "k = 0" | "k = 1" | "k = 2" | "k = 3" | "k = 4" | "k = 5" | "k = 6"
    | "k = 7" | "k = 8" | "k = 9" by atomize_elim arith
  then have "isDigit (''0123456789'' ! k) \<and> digitValue (''0123456789'' ! k) = k \<and>
      \<not> isWhiteSpace (''0123456789'' ! k) \<and> ''0123456789'' ! k \<noteq> CHR ''-'' \<and>
      ''0123456789'' ! k \<noteq> CHR ''+''"
    by cases (simp_all add: isDigit_def digitValue_def isWhiteSpace_def)
  then show "isDigit (''0123456789'' ! k)" and "digitValue (''0123456789'' ! k) = k"
    and "\<not> isWhiteSpace (''0123456789'' ! k)"
    and "''0123456789'' ! k \<noteq> CHR ''-''" and "''0123456789'' ! k \<noteq> CHR ''+''"
    by simp_all
qed

lemma decimal_not_empty: "decimal n \<noteq> []"
  by (subst decimal.simps) simp

lemma decimal_digits: "c \<in> set (decimal n) \<Longrightarrow> isDigit c"
proof (induction n arbitrary: c rule: decimal.induct)
  case (1 n)
  show ?case
  proof (cases "n < 10")
    case True
    with "1.prems" show ?thesis
      by (subst (asm) decimal.simps) (simp add: digit_nth)
  next
    case False
    with "1.prems" have "c \<in> set (decimal (n div 10)) \<or> c = ''0123456789'' ! (n mod 10)"
      by (subst (asm) decimal.simps) auto
    with False "1.IH" show ?thesis
      by (auto simp: digit_nth)
  qed
qed

lemma digitsValue_snoc: "digitsValue (ds @ [c]) = 10 * digitsValue ds + digitValue c"
  by (simp add: digitsValue_def)

lemma digitsValue_decimal: "digitsValue (decimal n) = n"
proof (induction n rule: decimal.induct)
  case (1 n)
  show ?case
  proof (cases "n < 10")
    case True
    then show ?thesis
      by (subst decimal.simps) (simp add: digitsValue_def digit_nth)
  next
    case False
    with "1.IH" have "digitsValue (decimal (n div 10)) = n div 10" by simp
    with False show ?thesis
      by (subst decimal.simps) (simp add: digitsValue_snoc digit_nth)
  qed
qed

lemma decimal_head: "\<exists>c cs. decimal n = c # cs \<and> isDigit c"
proof -
  obtain c cs where "decimal n = c # cs"
    using decimal_not_empty [of n] by (cases "decimal n") auto
  moreover from this have "isDigit c"
    using decimal_digits [of c n] by simp
  ultimately show ?thesis by blast
qed

lemma isDigit_plain: "isDigit c \<Longrightarrow> \<not> isWhiteSpace c \<and> c \<noteq> CHR ''-'' \<and> c \<noteq> CHR ''+''"
  by (auto simp: isDigit_def isWhiteSpace_def)

lemma bitLength_bound: "m < 2 ^ k \<Longrightarrow> bitLength m \<le> k"
proof (induction m arbitrary: k rule: bitLength.induct)
  case (1 n)
  show ?case
  proof (cases "n = 0")
    case True
    then show ?thesis by (subst bitLength.simps) simp
  next
    case False
    with "1.prems" obtain j where k: "k = Suc j" by (cases k) auto
    with "1.prems" have "n div 2 < 2 ^ j" by auto
    with False "1.IH" have "bitLength (n div 2) \<le> j" by blast
    with False k show ?thesis by (subst bitLength.simps) simp
  qed
qed

lemma toDouble_exact:
  assumes "m \<noteq> 0" and "m \<le> 2 ^ 53"
  shows "toDouble neg m = Num (if neg then - int m else int m)"
proof (cases "m = 2 ^ 53")
  case True
  have "bitLength (2 ^ 53) = 54"
    by (simp add: bitLength.simps)
  with True show ?thesis
    by (simp add: toDouble_def Let_def)
next
  case False
  with assms have "m < 2 ^ 53" by simp
  then have e: "bitLength m - 53 = 0"
    using bitLength_bound [of m 53] by simp
  have "(2::nat) ^ 53 < 2 ^ 1024" by simp
  with \<open>m < 2 ^ 53\<close> have "\<not> 2 ^ 1024 \<le> m" by linarith
  with assms e show ?thesis
    by (simp add: toDouble_def Let_def)
qed

lemma parse_digits:
  assumes "ds \<noteq> []" and "\<forall>c \<in> set ds. isDigit c"
  shows "parseInt10 ds = toDouble False (digitsValue ds)"
    and "parseInt10 (CHR ''-'' # ds) = toDouble True (digitsValue ds)"
proof -
  from assms obtain c cs where ds: "ds = c # cs" by (cases ds) auto
  with assms have c: "isDigit c" and cs: "takeWhile isDigit cs = cs"
    by (simp_all add: takeWhile_eq_all_conv)
  from c have plain: "\<not> isWhiteSpace c" "c \<noteq> CHR ''-''" "c \<noteq> CHR ''+''"
    using isDigit_plain by blast+
  show "parseInt10 ds = toDouble False (digitsValue ds)"
    using ds c cs plain by (simp add: parseInt10_def Let_def del: takeWhile_eq_all_conv)
  have "\<not> isWhiteSpace CHR ''-''" by (simp add: isWhiteSpace_def)
  then show "parseInt10 (CHR ''-'' # ds) = toDouble True (digitsValue ds)"
    using ds c cs by (simp add: parseInt10_def Let_def del: takeWhile_eq_all_conv)
qed

lemma parseInt10_decimal: "m \<le> 2 ^ 53 \<Longrightarrow> parseInt10 (decimal m) = Num (int m)"
proof -
  assume m: "m \<le> 2 ^ 53"
  have "parseInt10 (decimal m) = toDouble False (digitsValue (decimal m))"
    using parse_digits(1) [of "decimal m"] decimal_not_empty decimal_digits by blast
  also have "\<dots> = Num (int m)"
    using m toDouble_exact [of m False]
    by (cases "m = 0") (simp_all add: digitsValue_decimal toDouble_def)
  finally show ?thesis .
qed

lemma parseInt10_minus_decimal:
  "m \<noteq> 0 \<Longrightarrow> m \<le> 2 ^ 53 \<Longrightarrow> parseInt10 (CHR ''-'' # decimal m) = Num (- int m)"
proof -
  assume m: "m \<noteq> 0" "m \<le> 2 ^ 53"
  have "parseInt10 (CHR ''-'' # decimal m) = toDouble True (digitsValue (decimal m))"
    using parse_digits(2) [of "decimal m"] decimal_not_empty decimal_digits by blast
  with m show ?thesis
    by (simp add: digitsValue_decimal toDouble_exact)
qed

lemma parseInt10_showInt: "\<bar>n\<bar> \<le> 2 ^ 53 \<Longrightarrow> parseInt10 (showInt n) = Num n"
proof (cases "n < 0")
  case True
  assume "\<bar>n\<bar> \<le> 2 ^ 53"
  with True have "nat (- n) \<noteq> 0" "nat (- n) \<le> 2 ^ 53"
    by (simp_all add: nat_le_iff)
  from parseInt10_minus_decimal [OF this] True show ?thesis
    by (simp add: showInt_def)
next
  case False
  assume "\<bar>n\<bar> \<le> 2 ^ 53"
  with False have "nat n \<le> 2 ^ 53" by (simp add: nat_le_iff)
  from parseInt10_decimal [OF this] False show ?thesis
    by (simp add: showInt_def)
qed

lemma parseInt10_no_digit: "(\<forall>c \<in> set s. \<not> isDigit c) \<Longrightarrow> parseInt10 s = NaN"
proof -
  assume none: "\<forall>c \<in> set s. \<not> isDigit c"
  have t: "\<forall>c \<in> set (dropWhile isWhiteSpace s). \<not> isDigit c"
    using none set_dropWhileD by fastforce
  show ?thesis
  proof (cases "dropWhile isWhiteSpace s")
    case Nil
    show ?thesis unfolding parseInt10_def Let_def Nil by simp
  next
    case (Cons c r)
    with t have "\<not> isDigit c" and "\<forall>x \<in> set r. \<not> isDigit x" by simp_all
    then have "takeWhile isDigit (c # r) = []" and "takeWhile isDigit r = []"
      by (simp, cases r) simp_all
    then show ?thesis unfolding parseInt10_def Let_def Cons by simp
  qed
qed

lemma parse_examples:
  "parseInt10 ''9007199254740993'' = Num 9007199254740992"
  "parseInt10 '' -42abc'' = Num (- 42)"
  "parseInt10 ''-0'' = NegZero"
  "parseInt10 ''abc'' = NaN"
  by (simp_all add: eval_defs)

section \<open>Counter reads\<close>

text \<open>
  C3. When the Cache yields a non-empty string \<open>v\<close> for the counter key of the (trimmed)
  feed id, \<open>getLikeCount\<close> and \<open>getCommentCount\<close> return \<open>parseInt(v, 10)\<close>; the only
  call made is the \<open>get\<close> of the Cache, so the Store is neither read nor written and the
  existence of the feed is not checked. In particular a cached decimal notation of an
  integer \<open>n\<close> of magnitude up to \<open>2^53\<close> is returned as \<open>n\<close>. The parse of the decimal
  notation of such an \<open>n\<close> is \<open>n\<close>, and the parse of a string without a digit is \<open>NaN\<close>.
\<close>

theorem cache_hit_returns_cached:
  "(rh_get rh (likeCountKey (trim feed_id)) (cache w) = Inr (Some v) \<and> v \<noteq> [] \<longrightarrow>
      getLikeCount fm rh feed_id w =
        (Inr (parseInt10 v), w\<lparr>calls := calls w @ [RH_get (likeCountKey (trim feed_id))]\<rparr>)) \<and>
   (rh_get rh (commentCountKey (trim feed_id)) (cache w) = Inr (Some v) \<and> v \<noteq> [] \<longrightarrow>
      getCommentCount fm rh feed_id w =
        (Inr (parseInt10 v), w\<lparr>calls := calls w @ [RH_get (commentCountKey (trim feed_id))]\<rparr>)) \<and>
   (rh_get rh (likeCountKey (trim feed_id)) (cache w) = Inr (Some (showInt n)) \<and>
    \<bar>n\<bar> \<le> 2 ^ 53 \<longrightarrow>
      getLikeCount fm rh feed_id w =
        (Inr (Num n), w\<lparr>calls := calls w @ [RH_get (likeCountKey (trim feed_id))]\<rparr>)) \<and>
   (rh_get rh (commentCountKey (trim feed_id)) (cache w) = Inr (Some (showInt n)) \<and>
    \<bar>n\<bar> \<le> 2 ^ 53 \<longrightarrow>
      getCommentCount fm rh feed_id w =
        (Inr (Num n), w\<lparr>calls := calls w @ [RH_get (commentCountKey (trim feed_id))]\<rparr>)) \<and>
   (\<bar>n\<bar> \<le> 2 ^ 53 \<longrightarrow> parseInt10 (showInt n) = Num n) \<and>
   ((\<forall>c \<in> set v. \<not> isDigit c) \<longrightarrow> parseInt10 v = NaN)"
proof -
  have hit: "(rh_get rh (likeCountKey (trim feed_id)) (cache w) = Inr (Some u) \<and> u \<noteq> [] \<longrightarrow>
      getLikeCount fm rh feed_id w =
        (Inr (parseInt10 u), w\<lparr>calls := calls w @ [RH_get (likeCountKey (trim feed_id))]\<rparr>)) \<and>
   (rh_get rh (commentCountKey (trim feed_id)) (cache w) = Inr (Some u) \<and> u \<noteq> [] \<longrightarrow>
      getCommentCount fm rh feed_id w =
        (Inr (parseInt10 u), w\<lparr>calls := calls w @ [RH_get (commentCountKey (trim feed_id))]\<rparr>))"
    for u
    by (simp add: getLikeCount_def getLikeCount_try_def getCommentCount_def
        getCommentCount_try_def prog_defs)
  have shown: "showInt n \<noteq> []"
    by (simp add: showInt_def decimal_not_empty)
  show ?thesis
    using hit [of v] hit [of "showInt n"] shown parseInt10_showInt [of n]
      parseInt10_no_digit [of v]
    by simp
qed

theorem cache_hit_returns_cached_witness:
  "fm_getFeedById refFeedModel ''7'' (store exampleWorld) = Inr None \<and>
   rh_get refRedisHandle (likeCountKey (trim '' 7 '')) (cache exampleWorld)
     = Inr (Some ''9007199254740993'') \<and>
   getLikeCount refFeedModel refRedisHandle '' 7 '' exampleWorld =
     (Inr (Num 9007199254740992), exampleWorld\<lparr>calls := [RH_get ''feed:7:likeCount'']\<rparr>) \<and>
   rh_get refRedisHandle (likeCountKey (trim ''1'')) (cache exampleWorld)
     = Inr (Some (showInt 5)) \<and> \<bar>5 :: int\<bar> \<le> 2 ^ 53 \<and>
   getLikeCount refFeedModel refRedisHandle ''1'' exampleWorld =
     (Inr (Num 5), exampleWorld\<lparr>calls := [RH_get ''feed:1:likeCount'']\<rparr>) \<and>
   parseInt10 (showInt (- 120)) = Num (- 120) \<and>
   parseInt10 ''n/a'' = NaN"
proof -
  have big: "parseInt10 ''9007199254740993'' = Num 9007199254740992"
    by (rule parse_examples)
  have nodigit: "\<forall>c \<in> set ''n/a''. \<not> isDigit c"
    by (simp add: isDigit_def)
  have hyp: "fm_getFeedById refFeedModel ''7'' (store exampleWorld) = Inr None"
    "rh_get refRedisHandle (likeCountKey (trim '' 7 '')) (cache exampleWorld)
       = Inr (Some ''9007199254740993'')"
    "rh_get refRedisHandle (likeCountKey (trim ''1'')) (cache exampleWorld)
       = Inr (Some (showInt 5))"
    "trim '' 7 '' = ''7''" "trim ''1'' = ''1''" "calls exampleWorld = []"
    "likeCountKey ''7'' = ''feed:7:likeCount''" "likeCountKey ''1'' = ''feed:1:likeCount''"
    by (simp_all add: trim_def isWhiteSpace_def likeCountKey_def refFeedModel_def
        ref_getFeedById_def refRedisHandle_def exampleWorld_def exampleStore_def
        exampleCache_def showInt_def decimal.simps)
  note seven = cache_hit_returns_cached [of refRedisHandle "'' 7 ''" exampleWorld
      "''9007199254740993''" refFeedModel 0]
  note one = cache_hit_returns_cached [of refRedisHandle "''1''" exampleWorld "''n/a''"
      refFeedModel 5]
  note minus = cache_hit_returns_cached [of refRedisHandle "''1''" exampleWorld "''n/a''"
      refFeedModel "- 120"]
  from seven one minus big nodigit hyp show ?thesis
    by simp
qed

text \<open>
  C4. On a cache miss (the Cache yields nothing or the empty string) for a feed that the
  Store does not have, \<open>getLikeCount\<close> and \<open>getCommentCount\<close> fail with
  \<open>Feed not found\<close>; the calls made are the \<open>get\<close> of the Cache and the lookup of the
  feed, so nothing is written to the Cache.
\<close>

theorem miss_on_absent_feed:
  "(rh_get rh (likeCountKey (trim feed_id)) (cache w) = Inr c \<and> \<not> truthy c \<and>
    fm_getFeedById fm (trim feed_id) (store w) = Inr None \<longrightarrow>
      getLikeCount fm rh feed_id w =
        (Inl ''Feed not found'',
         w\<lparr>calls := calls w @ [RH_get (likeCountKey (trim feed_id)), FM_getFeedById (trim feed_id)],
           console := console w @ [''Error getting like count: Feed not found'']\<rparr>)) \<and>
   (rh_get rh (commentCountKey (trim feed_id)) (cache w) = Inr c \<and> \<not> truthy c \<and>
    fm_getFeedById fm (trim feed_id) (store w) = Inr None \<longrightarrow>
      getCommentCount fm rh feed_id w =
        (Inl ''Feed not found'',
         w\<lparr>calls := calls w @ [RH_get (commentCountKey (trim feed_id)), FM_getFeedById (trim feed_id)],
           console := console w @ [''Error getting comment count: Feed not found'']\<rparr>))"
  by (simp add: getLikeCount_def getLikeCount_try_def getCommentCount_def
      getCommentCount_try_def prog_defs)

theorem miss_on_absent_feed_witness:
  "rh_get refRedisHandle (commentCountKey (trim ''7'')) (cache exampleWorld) = Inr None \<and>
   fm_getFeedById refFeedModel (trim ''7'') (store exampleWorld) = Inr None \<and>
   getCommentCount refFeedModel refRedisHandle ''7'' exampleWorld =
     (Inl ''Feed not found'',
      exampleWorld\<lparr>calls := [RH_get ''feed:7:commentCount'', FM_getFeedById ''7''],
        console := [''Error getting comment count: Feed not found'']\<rparr>) \<and>
   cache (snd (getCommentCount refFeedModel refRedisHandle ''7'' exampleWorld)) = cache exampleWorld"
  using miss_on_absent_feed [of refRedisHandle "''7''" exampleWorld None refFeedModel]
  by (simp add: eval_defs truthy_def)

text \<open>
  C5. On a cache miss for a feed that the Store has, \<open>getLikeCount\<close> and
  \<open>getCommentCount\<close> read the count from the Store and call \<open>setex\<close> on the counter key
  with 600 seconds and that count. When the call returns, the read returns the count,
  also when the promise of the call rejects later: the rejection stays unhandled and is
  not logged. When the call itself throws, the \<open>catch\<close> clause takes the error and the
  read fails with its message.
\<close>

theorem miss_populates_cache:
  "(rh_get rh (likeCountKey (trim feed_id)) (cache w) = Inr c \<and> \<not> truthy c \<and>
    fm_getFeedById fm (trim feed_id) (store w) = Inr (Some f) \<and>
    fm_getLikeCount fm (trim feed_id) (store w) = Inr n \<longrightarrow>
      (rh_setex rh (likeCountKey (trim feed_id)) 600 n (cache w) = (Fulfils, c') \<longrightarrow>
         getLikeCount fm rh feed_id w =
           (Inr (Num n),
            w\<lparr>cache := c',
              calls := calls w @ [RH_get (likeCountKey (trim feed_id)),
                FM_getFeedById (trim feed_id), FM_getLikeCount (trim feed_id),
                RH_setex (likeCountKey (trim feed_id)) 600 n]\<rparr>)) \<and>
      (rh_setex rh (likeCountKey (trim feed_id)) 600 n (cache w) = (Rejects m, c') \<longrightarrow>
         getLikeCount fm rh feed_id w =
           (Inr (Num n),
            w\<lparr>cache := c',
              calls := calls w @ [RH_get (likeCountKey (trim feed_id)),
                FM_getFeedById (trim feed_id), FM_getLikeCount (trim feed_id),
                RH_setex (likeCountKey (trim feed_id)) 600 n],
              unhandled := unhandled w @ [m]\<rparr>)) \<and>
      (rh_setex rh (likeCountKey (trim feed_id)) 600 n (cache w) = (Throws m, c') \<longrightarrow>
         getLikeCount fm rh feed_id w =
           (Inl m,
            w\<lparr>cache := c',
              calls := calls w @ [RH_get (likeCountKey (trim feed_id)),
                FM_getFeedById (trim feed_id), FM_getLikeCount (trim feed_id),
                RH_setex (likeCountKey (trim feed_id)) 600 n],
              console := console w @ [''Error getting like count: '' @ m]\<rparr>))) \<and>
   (rh_get rh (commentCountKey (trim feed_id)) (cache w) = Inr c \<and> \<not> truthy c \<and>
    fm_getFeedById fm (trim feed_id) (store w) = Inr (Some f) \<and>
    fm_getCommentCount fm (trim feed_id) (store w) = Inr n \<longrightarrow>
      (rh_setex rh (commentCountKey (trim feed_id)) 600 n (cache w) = (Fulfils, c') \<longrightarrow>
         getCommentCount fm rh feed_id w =
           (Inr (Num n),
            w\<lparr>cache := c',
              calls := calls w @ [RH_get (commentCountKey (trim feed_id)),
                FM_getFeedById (trim feed_id), FM_getCommentCount (trim feed_id),
                RH_setex (commentCountKey (trim feed_id)) 600 n]\<rparr>)) \<and>
      (rh_setex rh (commentCountKey (trim feed_id)) 600 n (cache w) = (Rejects m, c') \<longrightarrow>
         getCommentCount fm rh feed_id w =
           (Inr (Num n),
            w\<lparr>cache := c',
              calls := calls w @ [RH_get (commentCountKey (trim feed_id)),
                FM_getFeedById (trim feed_id), FM_getCommentCount (trim feed_id),
                RH_setex (commentCountKey (trim feed_id)) 600 n],
              unhandled := unhandled w @ [m]\<rparr>)) \<and>
      (rh_setex rh (commentCountKey (trim feed_id)) 600 n (cache w) = (Throws m, c') \<longrightarrow>
         getCommentCount fm rh feed_id w =
           (Inl m,
            w\<lparr>cache := c',
              calls := calls w @ [RH_get (commentCountKey (trim feed_id)),
                FM_getFeedById (trim feed_id), FM_getCommentCount (trim feed_id),
                RH_setex (commentCountKey (trim feed_id)) 600 n],
              console := console w @ [''Error getting comment count: '' @ m]\<rparr>)))"
  by (simp add: getLikeCount_def getLikeCount_try_def getCommentCount_def
      getCommentCount_try_def prog_defs)

theorem miss_populates_cache_witness:
  "rh_get refRedisHandle (commentCountKey (trim '' 1'')) (cache exampleWorld) = Inr None \<and>
   fm_getCommentCount refFeedModel (trim '' 1'') (store exampleWorld) = Inr 2 \<and>
   fst (getCommentCount refFeedModel refRedisHandle '' 1'' exampleWorld) = Inr (Num 2) \<and>
   cache (snd (getCommentCount refFeedModel refRedisHandle '' 1'' exampleWorld))
     ''feed:1:commentCount'' = Some (600, ''2'') \<and>
   getCommentCount refFeedModel
     (refRedisHandle\<lparr>rh_setex := \<lambda>key ttl v c. (Rejects ''READONLY'', c)\<rparr>) '' 1'' exampleWorld
     = (Inr (Num 2),
        exampleWorld\<lparr>calls := [RH_get ''feed:1:commentCount'', FM_getFeedById ''1'',
            FM_getCommentCount ''1'', RH_setex ''feed:1:commentCount'' 600 2],
          unhandled := [''READONLY'']\<rparr>) \<and>
   getCommentCount refFeedModel brokenRedisHandle '' 1'' exampleWorld
     = (Inl ''redisHandle.setex is not a function'',
        exampleWorld\<lparr>calls := [RH_get ''feed:1:commentCount'', FM_getFeedById ''1'',
            FM_getCommentCount ''1'', RH_setex ''feed:1:commentCount'' 600 2],
          console :=
            [''Error getting comment count: redisHandle.setex is not a function'']\<rparr>)"
proof -
  let ?f = "\<lparr>f_feed_id = ''1'', f_firebase_uid = ''alice'', f_description = ''hello''\<rparr>"
  let ?ro = "refRedisHandle\<lparr>rh_setex := \<lambda>key ttl v c. (Rejects ''READONLY'', c)\<rparr>"
  note ok = miss_populates_cache [of refRedisHandle "'' 1''" exampleWorld None refFeedModel ?f 2
      "exampleCache(''feed:1:commentCount'' \<mapsto> (600, ''2''))" "''READONLY''"]
  note late = miss_populates_cache [of ?ro "'' 1''" exampleWorld None refFeedModel ?f 2
      exampleCache "''READONLY''"]
  note thrown = miss_populates_cache [of brokenRedisHandle "'' 1''" exampleWorld None
      refFeedModel ?f 2 exampleCache "''redisHandle.setex is not a function''"]
  from ok late thrown show ?thesis
    by (simp add: eval_defs brokenRedisHandle_def truthy_def)
qed

theorem miss_populates_cache_counterexample:
  "rh_get brokenRedisHandle (commentCountKey (trim ''1'')) (cache exampleWorld) = Inr None \<and>
   fm_getFeedById refFeedModel (trim ''1'') (store exampleWorld) =
     Inr (Some \<lparr>f_feed_id = ''1'', f_firebase_uid = ''alice'', f_description = ''hello''\<rparr>) \<and>
   fm_getCommentCount refFeedModel (trim ''1'') (store exampleWorld) = Inr 2 \<and>
   fst (rh_setex brokenRedisHandle (commentCountKey (trim ''1'')) 600 2 (cache exampleWorld))
     = Throws ''redisHandle.setex is not a function'' \<and>
   fst (getCommentCount refFeedModel brokenRedisHandle ''1'' exampleWorld)
     = Inl ''redisHandle.setex is not a function'' \<and>
   fst (getCommentCount refFeedModel brokenRedisHandle ''1'' exampleWorld) \<noteq> Inr (Num 2)"
  by (simp add: getCommentCount_def getCommentCount_try_def prog_defs eval_defs
      brokenRedisHandle_def)

section \<open>Authorization\<close>

text \<open>
  C2. \<open>updateFeed\<close>, \<open>deleteFeed\<close>, \<open>updateFeedImage\<close> and \<open>deleteFeedImage\<close>: when the
  Store yields the feed and its author is not the acting identity, the operation fails
  with \<open>Permission denied\<close>; when the Store yields no feed, it fails with
  \<open>Feed not found\<close>. In both cases the only call made is the lookup of the feed: the
  Store and the Cache are left as they were (the world differs in the calls and the
  console only). The feed and image operations look the feed up under the trimmed and
  the given id, respectively.
\<close>

theorem unauthorized_mutation_rejected:
  "(fm_getFeedById fm (trim feed_id) (store w) = Inr (Some f) \<and> f_firebase_uid f \<noteq> firebase_uid \<longrightarrow>
      updateFeed fm rh feed_id firebase_uid description w =
        (Inl ''Permission denied'',
         w\<lparr>calls := calls w @ [FM_getFeedById (trim feed_id)],
           console := console w @ [''Error updating feed: Permission denied'']\<rparr>) \<and>
      deleteFeed fm rh feed_id firebase_uid w =
        (Inl ''Permission denied'',
         w\<lparr>calls := calls w @ [FM_getFeedById (trim feed_id)],
           console := console w @ [''Error deleting feed: Permission denied'']\<rparr>)) \<and>
   (fm_getFeedById fm (trim feed_id) (store w) = Inr None \<longrightarrow>
      updateFeed fm rh feed_id firebase_uid description w =
        (Inl ''Feed not found'',
         w\<lparr>calls := calls w @ [FM_getFeedById (trim feed_id)],
           console := console w @ [''Error updating feed: Feed not found'']\<rparr>) \<and>
      deleteFeed fm rh feed_id firebase_uid w =
        (Inl ''Feed not found'',
         w\<lparr>calls := calls w @ [FM_getFeedById (trim feed_id)],
           console := console w @ [''Error deleting feed: Feed not found'']\<rparr>)) \<and>
   (fm_getFeedById fm feed_id (store w) = Inr (Some f) \<and> f_firebase_uid f \<noteq> firebase_uid \<longrightarrow>
      updateFeedImage fm rh firebase_uid feed_id image_id newImageUrl w =
        (Inl ''Permission denied'',
         w\<lparr>calls := calls w @ [FM_getFeedById feed_id],
           console := console w @ [''Error updating feed image: Permission denied'']\<rparr>) \<and>
      deleteFeedImage fm rh firebase_uid feed_id image_id w =
        (Inl ''Permission denied'',
         w\<lparr>calls := calls w @ [FM_getFeedById feed_id],
           console := console w @ [''Error deleting feed image: Permission denied'']\<rparr>)) \<and>
   (fm_getFeedById fm feed_id (store w) = Inr None \<longrightarrow>
      updateFeedImage fm rh firebase_uid feed_id image_id newImageUrl w =
        (Inl ''Feed not found'',
         w\<lparr>calls := calls w @ [FM_getFeedById feed_id],
           console := console w @ [''Error updating feed image: Feed not found'']\<rparr>) \<and>
      deleteFeedImage fm rh firebase_uid feed_id image_id w =
        (Inl ''Feed not found'',
         w\<lparr>calls := calls w @ [FM_getFeedById feed_id],
           console := console w @ [''Error deleting feed image: Feed not found'']\<rparr>))"
  by (simp add: updateFeed_def updateFeed_try_def deleteFeed_def deleteFeed_try_def
      updateFeedImage_def updateFeedImage_try_def deleteFeedImage_def deleteFeedImage_try_def
      prog_defs)

theorem unauthorized_mutation_rejected_witness:
  "f_firebase_uid \<lparr>f_feed_id = ''1'', f_firebase_uid = ''alice'', f_description = ''hello''\<rparr> \<noteq> ''bob'' \<and>
   fm_getFeedById refFeedModel (trim ''1'') (store exampleWorld) =
     Inr (Some \<lparr>f_feed_id = ''1'', f_firebase_uid = ''alice'', f_description = ''hello''\<rparr>) \<and>
   fst (updateFeed refFeedModel refRedisHandle ''1'' ''bob'' ''x'' exampleWorld) =
     Inl ''Permission denied'' \<and>
   store (snd (updateFeed refFeedModel refRedisHandle ''1'' ''bob'' ''x'' exampleWorld)) =
     store exampleWorld \<and>
   fst (deleteFeed refFeedModel refRedisHandle ''1'' ''bob'' exampleWorld) =
     Inl ''Permission denied'' \<and>
   store (snd (deleteFeed refFeedModel refRedisHandle ''1'' ''bob'' exampleWorld)) =
     store exampleWorld \<and>
   fst (updateFeedImage refFeedModel refRedisHandle ''bob'' ''1'' ''2'' ''c.jpg'' exampleWorld) =
     Inl ''Permission denied'' \<and>
   store (snd (updateFeedImage refFeedModel refRedisHandle ''bob'' ''1'' ''2'' ''c.jpg'' exampleWorld)) =
     store exampleWorld \<and>
   fst (deleteFeedImage refFeedModel refRedisHandle ''bob'' ''1'' ''2'' exampleWorld) =
     Inl ''Permission denied'' \<and>
   store (snd (deleteFeedImage refFeedModel refRedisHandle ''bob'' ''1'' ''2'' exampleWorld)) =
     store exampleWorld \<and>
   fm_getFeedById refFeedModel (trim ''7'') (store exampleWorld) = Inr None \<and>
   fst (updateFeed refFeedModel refRedisHandle ''7'' ''bob'' ''x'' exampleWorld) =
     Inl ''Feed not found'' \<and>
   fst (deleteFeed refFeedModel refRedisHandle ''7'' ''bob'' exampleWorld) =
     Inl ''Feed not found'' \<and>
   fst (updateFeedImage refFeedModel refRedisHandle ''bob'' ''7'' ''2'' ''c.jpg'' exampleWorld) =
     Inl ''Feed not found'' \<and>
   fst (deleteFeedImage refFeedModel refRedisHandle ''bob'' ''7'' ''2'' exampleWorld) =
     Inl ''Feed not found'' \<and>
   store (snd (deleteFeed refFeedModel refRedisHandle ''7'' ''bob'' exampleWorld)) =
     store exampleWorld"
  using unauthorized_mutation_rejected [of refFeedModel "''1''" exampleWorld
      "\<lparr>f_feed_id = ''1'', f_firebase_uid = ''alice'', f_description = ''hello''\<rparr>"
      "''bob''" refRedisHandle "''x''" "''2''" "''c.jpg''"]
    unauthorized_mutation_rejected [of refFeedModel "''7''" exampleWorld
      "\<lparr>f_feed_id = ''1'', f_firebase_uid = ''alice'', f_description = ''hello''\<rparr>"
      "''bob''" refRedisHandle "''x''" "''2''" "''c.jpg''"]
  by (simp add: eval_defs)

section \<open>The last image of a feed\<close>

lemma removeFirst_filter_length:
  "length (filter Q xs) \<le> Suc (length (filter Q (removeFirst P xs)))"
  by (induction xs) auto

lemma removeFirst_filter_other:
  "(\<And>x. P x \<Longrightarrow> \<not> Q x) \<Longrightarrow> filter Q (removeFirst P xs) = filter Q xs"
  by (induction xs) auto

lemma refFeedModel_imageContract: "imageContract refFeedModel"
proof -
  have same: "int (length (filter (\<lambda>x. fst (snd x) = g) xs)) - 1
      \<le> int (length (filter (\<lambda>x. fst (snd x) = g) (removeFirst P xs)))" for g P
    and xs :: "(string \<times> string \<times> string) list"
    using removeFirst_filter_length [of "\<lambda>x. fst (snd x) = g" xs P] by linarith
  have other: "g \<noteq> feed_id \<Longrightarrow>
      filter (\<lambda>x. fst (snd x) = g)
        (removeFirst (\<lambda>x. fst x = image_id \<and> fst (snd x) = feed_id) xs)
        = filter (\<lambda>x. fst (snd x) = g) xs" for g feed_id image_id
    and xs :: "(string \<times> string \<times> string) list"
    by (rule removeFirst_filter_other) auto
  show ?thesis
    unfolding imageContract_def
    by (simp add: refFeedModel_def ref_getFeedImageCount_def ref_deleteFeedImage_def
        imagesOf_def same other)
qed

text \<open>
  C6. \<open>deleteFeedImage\<close> by the author of an existing feed whose image count in the Store
  is at most 1 fails with \<open>Can't delete last image, need at least one image\<close>, and the
  calls made are the lookup of the feed and the count of its images only. Whatever the
  outcome, either the Store is unchanged and no \<open>deleteFeedImage\<close> call was made to it,
  or the count was at least 2 and the Store is the one left by that call. Hence, over a
  Store whose deletion takes at most one image from the named feed and none from another,
  a feed with at least one image has at least one image afterwards.
\<close>

theorem last_image_kept:
  "(fm_getFeedById fm feed_id (store w) = Inr (Some f) \<and> f_firebase_uid f = firebase_uid \<and>
    fm_getFeedImageCount fm feed_id (store w) = Inr n \<and> n \<le> 1 \<longrightarrow>
      deleteFeedImage fm rh firebase_uid feed_id image_id w =
        (Inl ''Can't delete last image, need at least one image'',
         w\<lparr>calls := calls w @ [FM_getFeedById feed_id, FM_getFeedImageCount feed_id],
           console := console w @
             [''Error deleting feed image: Can't delete last image, need at least one image'']\<rparr>)) \<and>
   (deleteFeedImage fm rh firebase_uid feed_id image_id w = (res, w') \<longrightarrow>
      (store w' = store w \<and>
       (\<forall>a b. FM_deleteFeedImage a b \<notin> set (drop (length (calls w)) (calls w')))) \<or>
      (\<exists>k. fm_getFeedImageCount fm feed_id (store w) = Inr k \<and> 2 \<le> k \<and>
           store w' = snd (fm_deleteFeedImage fm feed_id image_id (store w)))) \<and>
   (imageContract fm \<and> deleteFeedImage fm rh firebase_uid feed_id image_id w = (res, w') \<and>
    fm_getFeedImageCount fm g (store w) = Inr m \<and> 1 \<le> m \<longrightarrow>
      (\<exists>m'. fm_getFeedImageCount fm g (store w') = Inr m' \<and> 1 \<le> m'))"
proof (intro conjI impI)
  assume "fm_getFeedById fm feed_id (store w) = Inr (Some f) \<and> f_firebase_uid f = firebase_uid \<and>
    fm_getFeedImageCount fm feed_id (store w) = Inr n \<and> n \<le> 1"
  then show "deleteFeedImage fm rh firebase_uid feed_id image_id w =
        (Inl ''Can't delete last image, need at least one image'',
         w\<lparr>calls := calls w @ [FM_getFeedById feed_id, FM_getFeedImageCount feed_id],
           console := console w @
             [''Error deleting feed image: Can't delete last image, need at least one image'']\<rparr>)"
    by (simp add: deleteFeedImage_def deleteFeedImage_try_def prog_defs)
next
  assume run: "deleteFeedImage fm rh firebase_uid feed_id image_id w = (res, w')"
  then show only: "(store w' = store w \<and>
       (\<forall>a b. FM_deleteFeedImage a b \<notin> set (drop (length (calls w)) (calls w')))) \<or>
      (\<exists>k. fm_getFeedImageCount fm feed_id (store w) = Inr k \<and> 2 \<le> k \<and>
           store w' = snd (fm_deleteFeedImage fm feed_id image_id (store w)))"
    by (auto simp: deleteFeedImage_def deleteFeedImage_try_def prog_defs
        split: sum.splits option.splits if_splits prod.splits)
next
  assume hyp: "imageContract fm \<and> deleteFeedImage fm rh firebase_uid feed_id image_id w = (res, w') \<and>
    fm_getFeedImageCount fm g (store w) = Inr m \<and> 1 \<le> m"
  then have run: "deleteFeedImage fm rh firebase_uid feed_id image_id w = (res, w')" by simp
  have cases: "store w' = store w \<or>
      (\<exists>k. fm_getFeedImageCount fm feed_id (store w) = Inr k \<and> 2 \<le> k \<and>
           store w' = snd (fm_deleteFeedImage fm feed_id image_id (store w)))"
    using run
    by (auto simp: deleteFeedImage_def deleteFeedImage_try_def prog_defs
        split: sum.splits option.splits if_splits prod.splits)
  then show "\<exists>m'. fm_getFeedImageCount fm g (store w') = Inr m' \<and> 1 \<le> m'"
  proof
    assume "store w' = store w"
    with hyp show ?thesis by simp
  next
    assume "\<exists>k. fm_getFeedImageCount fm feed_id (store w) = Inr k \<and> 2 \<le> k \<and>
           store w' = snd (fm_deleteFeedImage fm feed_id image_id (store w))"
    then obtain k where k: "fm_getFeedImageCount fm feed_id (store w) = Inr k" "2 \<le> k"
      and st: "store w' = snd (fm_deleteFeedImage fm feed_id image_id (store w))" by blast
    from hyp have "\<exists>m'. fm_getFeedImageCount fm g
          (snd (fm_deleteFeedImage fm feed_id image_id (store w))) = Inr m' \<and>
        (if g = feed_id then m - 1 \<le> m' else m' = m)"
      unfolding imageContract_def by blast
    then obtain m' where m': "fm_getFeedImageCount fm g (store w') = Inr m'"
      "if g = feed_id then m - 1 \<le> m' else m' = m" using st by auto
    have "1 \<le> m'"
    proof (cases "g = feed_id")
      case True
      with k hyp have "m = k" by simp
      with True m' k show ?thesis by simp
    next
      case False
      with m' hyp show ?thesis by simp
    qed
    with m' show ?thesis by blast
  qed
qed

theorem last_image_kept_witness:
  "fm_getFeedImageCount refFeedModel ''1'' (store exampleWorld) = Inr 2 \<and>
   fst (deleteFeedImage refFeedModel refRedisHandle ''alice'' ''1'' ''2'' exampleWorld) = Inr 1 \<and>
   fm_getFeedImageCount refFeedModel ''1''
     (store (snd (deleteFeedImage refFeedModel refRedisHandle ''alice'' ''1'' ''2'' exampleWorld)))
     = Inr 1 \<and>
   fst (deleteFeedImage refFeedModel refRedisHandle ''alice'' ''1'' ''3''
     (snd (deleteFeedImage refFeedModel refRedisHandle ''alice'' ''1'' ''2'' exampleWorld)))
     = Inl ''Can't delete last image, need at least one image'' \<and>
   (\<exists>m'. fm_getFeedImageCount refFeedModel ''1''
     (store (snd (deleteFeedImage refFeedModel refRedisHandle ''alice'' ''1'' ''3''
       (snd (deleteFeedImage refFeedModel refRedisHandle ''alice'' ''1'' ''2'' exampleWorld)))))
     = Inr m' \<and> 1 \<le> m')"
proof -
  let ?f = "\<lparr>f_feed_id = ''1'', f_firebase_uid = ''alice'', f_description = ''hello''\<rparr>"
  let ?w1 = "snd (deleteFeedImage refFeedModel refRedisHandle ''alice'' ''1'' ''2'' exampleWorld)"
  have w1: "store ?w1 = exampleStore\<lparr>rs_images := [(''3'', ''1'', ''b.jpg'')]\<rparr>"
    "fst (deleteFeedImage refFeedModel refRedisHandle ''alice'' ''1'' ''2'' exampleWorld) = Inr 1"
    by (simp_all add: deleteFeedImage_def deleteFeedImage_try_def prog_defs eval_defs)
  have pre: "fm_getFeedById refFeedModel ''1'' (store ?w1) = Inr (Some ?f) \<and>
      f_firebase_uid ?f = ''alice'' \<and>
      fm_getFeedImageCount refFeedModel ''1'' (store ?w1) = Inr 1 \<and> (1::int) \<le> 1"
    unfolding w1 by (simp add: eval_defs)
  obtain res w2 where w2:
    "deleteFeedImage refFeedModel refRedisHandle ''alice'' ''1'' ''3'' ?w1 = (res, w2)"
    by (cases "deleteFeedImage refFeedModel refRedisHandle ''alice'' ''1'' ''3'' ?w1")
  note inst = last_image_kept [of refFeedModel "''1''" ?w1 ?f "''alice''" 1 refRedisHandle "''3''"
      res w2 "''1''" 1]
  from inst pre have fails:
    "fst (deleteFeedImage refFeedModel refRedisHandle ''alice'' ''1'' ''3'' ?w1)
       = Inl ''Can't delete last image, need at least one image''"
    by simp
  from inst pre w2 refFeedModel_imageContract
  have "\<exists>m'. fm_getFeedImageCount refFeedModel ''1'' (store w2) = Inr m' \<and> 1 \<le> m'"
    by blast
  with w2 have keeps: "\<exists>m'. fm_getFeedImageCount refFeedModel ''1''
     (store (snd (deleteFeedImage refFeedModel refRedisHandle ''alice'' ''1'' ''3'' ?w1)))
     = Inr m' \<and> 1 \<le> m'" by simp
  have "fm_getFeedImageCount refFeedModel ''1'' (store exampleWorld) = Inr 2"
    by (simp add: eval_defs)
  with w1 pre fails keeps show ?thesis by simp
qed

section \<open>Likes\<close>

lemma refFeedModel_likeContract: "likeContract refFeedModel"
  unfolding likeContract_def
  by (auto simp: refFeedModel_def ref_likeFeed_def ref_unlikeFeed_def ref_checkLikeStatus_def
      ref_getFeedById_def)

lemma likeFeed_persists:
  "fm_getFeedById fm (trim feed_id) (store w) = Inr (Some f) \<Longrightarrow>
   fm_checkLikeStatus fm u (trim feed_id) (store w) = Inr False \<Longrightarrow>
   fm_likeFeed fm u (trim feed_id) (store w) = (Inr r, s') \<Longrightarrow>
   store (snd (likeFeed fm rh u feed_id w)) = s' \<and>
   fst (likeFeed fm rh u feed_id w) =
     (case fst (rh_del rh (likeCountKey (trim feed_id)) (cache w)) of
        Throws m \<Rightarrow> Inl m | _ \<Rightarrow> Inr True)"
  by (simp add: likeFeed_def likeFeed_try_def prog_defs split: prod.splits fate.splits)

lemma likeFeed_already:
  "fm_getFeedById fm (trim feed_id) (store w) = Inr (Some f) \<Longrightarrow>
   fm_checkLikeStatus fm u (trim feed_id) (store w) = Inr True \<Longrightarrow>
   likeFeed fm rh u feed_id w =
     (Inl ''Already liked this feed'',
      w\<lparr>calls := calls w @ [FM_getFeedById (trim feed_id), FM_checkLikeStatus u (trim feed_id)],
        console := console w @ [''Error liking feed: Already liked this feed'']\<rparr>)"
  by (simp add: likeFeed_def likeFeed_try_def prog_defs)

lemma unlikeFeed_persists:
  "fm_getFeedById fm (trim feed_id) (store w) = Inr (Some f) \<Longrightarrow>
   fm_checkLikeStatus fm u (trim feed_id) (store w) = Inr True \<Longrightarrow>
   fm_unlikeFeed fm u (trim feed_id) (store w) = (Inr r, s') \<Longrightarrow>
   store (snd (unlikeFeed fm rh u feed_id w)) = s' \<and>
   fst (unlikeFeed fm rh u feed_id w) =
     (case fst (rh_del rh (likeCountKey (trim feed_id)) (cache w)) of
        Throws m \<Rightarrow> Inl m | _ \<Rightarrow> Inr True)"
  by (simp add: unlikeFeed_def unlikeFeed_try_def prog_defs split: prod.splits fate.splits)

lemma unlikeFeed_not_liked:
  "fm_getFeedById fm (trim feed_id) (store w) = Inr (Some f) \<Longrightarrow>
   fm_checkLikeStatus fm u (trim feed_id) (store w) = Inr False \<Longrightarrow>
   unlikeFeed fm rh u feed_id w =
     (Inl ''Not liked this feed before, cannot unlike'',
      w\<lparr>calls := calls w @ [FM_getFeedById (trim feed_id), FM_checkLikeStatus u (trim feed_id)],
        console := console w @
          [''Error unliking feed: Not liked this feed before, cannot unlike'']\<rparr>)"
  by (simp add: unlikeFeed_def unlikeFeed_try_def prog_defs)

lemma returned_iff:
  "((case ft of Throws m \<Rightarrow> Inl m | _ \<Rightarrow> Inr True) = (Inr True :: string + bool))
     = (\<forall>m. ft \<noteq> Throws m)"
  by (cases ft) simp_all

lemma likeFeed_twice:
  assumes ex: "fm_getFeedById fm (trim feed_id) (store w) = Inr (Some f)"
    and con: "likeContract fm"
    and st: "fm_checkLikeStatus fm u (trim feed_id) (store w) = Inr False"
    and ok: "fm_likeFeed fm u (trim feed_id) (store w) = (Inr r, s')"
  shows "fst (likeFeed fm rh u feed_id (snd (likeFeed fm rh u feed_id w)))
          = Inl ''Already liked this feed''"
proof -
  let ?w1 = "snd (likeFeed fm rh u feed_id w)"
  have first: "store ?w1 = s'"
    by (simp add: likeFeed_persists [OF ex st ok])
  from con ok have "fm_checkLikeStatus fm u (trim feed_id) s' = Inr True"
    and "fm_getFeedById fm (trim feed_id) s' = fm_getFeedById fm (trim feed_id) (store w)"
    unfolding likeContract_def by blast+
  with ex first have "fm_getFeedById fm (trim feed_id) (store ?w1) = Inr (Some f)"
    and "fm_checkLikeStatus fm u (trim feed_id) (store ?w1) = Inr True" by simp_all
  then show ?thesis
    by (simp add: likeFeed_already)
qed

lemma unlikeFeed_twice:
  assumes ex: "fm_getFeedById fm (trim feed_id) (store w) = Inr (Some f)"
    and con: "likeContract fm"
    and st: "fm_checkLikeStatus fm u (trim feed_id) (store w) = Inr True"
    and ok: "fm_unlikeFeed fm u (trim feed_id) (store w) = (Inr r, s')"
  shows "fst (unlikeFeed fm rh u feed_id (snd (unlikeFeed fm rh u feed_id w)))
          = Inl ''Not liked this feed before, cannot unlike''"
proof -
  let ?w1 = "snd (unlikeFeed fm rh u feed_id w)"
  have first: "store ?w1 = s'"
    by (simp add: unlikeFeed_persists [OF ex st ok])
  from con ok have "fm_checkLikeStatus fm u (trim feed_id) s' = Inr False"
    and "fm_getFeedById fm (trim feed_id) s' = fm_getFeedById fm (trim feed_id) (store w)"
    unfolding likeContract_def by blast+
  with ex first have "fm_getFeedById fm (trim feed_id) (store ?w1) = Inr (Some f)"
    and "fm_checkLikeStatus fm u (trim feed_id) (store ?w1) = Inr False" by simp_all
  then show ?thesis
    by (simp add: unlikeFeed_not_liked)
qed

text \<open>
  C7. For a feed that the Store yields under the trimmed id: from \<open>NOT_LIKED\<close> (the
  Store reads the pair as not liked) \<open>likeFeed\<close> persists the like when the Store
  persists it, and then returns \<open>true\<close> unless the \<open>del\<close> call of the Cache throws, in
  which case it fails with the message thrown; from \<open>LIKED\<close> it fails with
  \<open>Already liked this feed\<close>, leaving the Store as it was (so that a repeated call
  fails again); \<open>unlikeFeed\<close> is the mirror image, failing from \<open>NOT_LIKED\<close> with
  \<open>Not liked this feed before, cannot unlike\<close>. With a Store that persists and a
  \<open>del\<close> call that returns, either operation returns \<open>true\<close> exactly from the state it
  is valid in. Over a Store that reads a persisted like as liked and a persisted unlike
  as not liked, the second of two consecutive \<open>likeFeed\<close> calls fails with
  \<open>Already liked this feed\<close>, and likewise for \<open>unlikeFeed\<close>. For a feed that the
  Store does not yield, both operations fail with \<open>Feed not found\<close>.
\<close>

theorem like_state_machine:
  "(fm_getFeedById fm (trim feed_id) (store w) = Inr (Some f) \<longrightarrow>
     (fm_checkLikeStatus fm u (trim feed_id) (store w) = Inr False \<and>
      fm_likeFeed fm u (trim feed_id) (store w) = (Inr r, s') \<longrightarrow>
        fst (likeFeed fm rh u feed_id w) =
          (case fst (rh_del rh (likeCountKey (trim feed_id)) (cache w)) of
             Throws m \<Rightarrow> Inl m | _ \<Rightarrow> Inr True) \<and>
        store (snd (likeFeed fm rh u feed_id w)) = s') \<and>
     (fm_checkLikeStatus fm u (trim feed_id) (store w) = Inr True \<longrightarrow>
        fst (likeFeed fm rh u feed_id w) = Inl ''Already liked this feed'' \<and>
        store (snd (likeFeed fm rh u feed_id w)) = store w \<and>
        fst (likeFeed fm rh u feed_id (snd (likeFeed fm rh u feed_id w)))
          = Inl ''Already liked this feed'') \<and>
     (fm_checkLikeStatus fm u (trim feed_id) (store w) = Inr liked \<and>
      fm_likeFeed fm u (trim feed_id) (store w) = (Inr r, s') \<longrightarrow>
        (fst (likeFeed fm rh u feed_id w) = Inr True) =
          (\<not> liked \<and> (\<forall>m. fst (rh_del rh (likeCountKey (trim feed_id)) (cache w)) \<noteq> Throws m))) \<and>
     (fm_checkLikeStatus fm u (trim feed_id) (store w) = Inr True \<and>
      fm_unlikeFeed fm u (trim feed_id) (store w) = (Inr r, s') \<longrightarrow>
        fst (unlikeFeed fm rh u feed_id w) =
          (case fst (rh_del rh (likeCountKey (trim feed_id)) (cache w)) of
             Throws m \<Rightarrow> Inl m | _ \<Rightarrow> Inr True) \<and>
        store (snd (unlikeFeed fm rh u feed_id w)) = s') \<and>
     (fm_checkLikeStatus fm u (trim feed_id) (store w) = Inr False \<longrightarrow>
        fst (unlikeFeed fm rh u feed_id w) = Inl ''Not liked this feed before, cannot unlike'' \<and>
        store (snd (unlikeFeed fm rh u feed_id w)) = store w \<and>
        fst (unlikeFeed fm rh u feed_id (snd (unlikeFeed fm rh u feed_id w)))
          = Inl ''Not liked this feed before, cannot unlike'') \<and>
     (fm_checkLikeStatus fm u (trim feed_id) (store w) = Inr liked \<and>
      fm_unlikeFeed fm u (trim feed_id) (store w) = (Inr r, s') \<longrightarrow>
        (fst (unlikeFeed fm rh u feed_id w) = Inr True) =
          (liked \<and> (\<forall>m. fst (rh_del rh (likeCountKey (trim feed_id)) (cache w)) \<noteq> Throws m))) \<and>
     (likeContract fm \<and> fm_checkLikeStatus fm u (trim feed_id) (store w) = Inr False \<and>
      fm_likeFeed fm u (trim feed_id) (store w) = (Inr r, s') \<longrightarrow>
        ((\<forall>m. fst (rh_del rh (likeCountKey (trim feed_id)) (cache w)) \<noteq> Throws m) \<longrightarrow>
           fst (likeFeed fm rh u feed_id w) = Inr True) \<and>
        fst (likeFeed fm rh u feed_id (snd (likeFeed fm rh u feed_id w)))
          = Inl ''Already liked this feed'') \<and>
     (likeContract fm \<and> fm_checkLikeStatus fm u (trim feed_id) (store w) = Inr True \<and>
      fm_unlikeFeed fm u (trim feed_id) (store w) = (Inr r, s') \<longrightarrow>
        ((\<forall>m. fst (rh_del rh (likeCountKey (trim feed_id)) (cache w)) \<noteq> Throws m) \<longrightarrow>
           fst (unlikeFeed fm rh u feed_id w) = Inr True) \<and>
        fst (unlikeFeed fm rh u feed_id (snd (unlikeFeed fm rh u feed_id w)))
          = Inl ''Not liked this feed before, cannot unlike'')) \<and>
   (fm_getFeedById fm (trim feed_id) (store w) = Inr None \<longrightarrow>
      fst (likeFeed fm rh u feed_id w) = Inl ''Feed not found'' \<and>
      store (snd (likeFeed fm rh u feed_id w)) = store w \<and>
      fst (unlikeFeed fm rh u feed_id w) = Inl ''Feed not found'' \<and>
      store (snd (unlikeFeed fm rh u feed_id w)) = store w)"
proof -
  have never: "fm_getFeedById fm (trim feed_id) (store w) = Inr None \<longrightarrow>
      fst (likeFeed fm rh u feed_id w) = Inl ''Feed not found'' \<and>
      store (snd (likeFeed fm rh u feed_id w)) = store w \<and>
      fst (unlikeFeed fm rh u feed_id w) = Inl ''Feed not found'' \<and>
      store (snd (unlikeFeed fm rh u feed_id w)) = store w"
    by (simp add: likeFeed_def likeFeed_try_def unlikeFeed_def unlikeFeed_try_def prog_defs)
  have exactly: "fm_getFeedById fm (trim feed_id) (store w) = Inr (Some f) \<longrightarrow>
     (fm_checkLikeStatus fm u (trim feed_id) (store w) = Inr liked \<and>
      fm_likeFeed fm u (trim feed_id) (store w) = (Inr r, s') \<longrightarrow>
        (fst (likeFeed fm rh u feed_id w) = Inr True) =
          (\<not> liked \<and> (\<forall>m. fst (rh_del rh (likeCountKey (trim feed_id)) (cache w)) \<noteq> Throws m))) \<and>
     (fm_checkLikeStatus fm u (trim feed_id) (store w) = Inr liked \<and>
      fm_unlikeFeed fm u (trim feed_id) (store w) = (Inr r, s') \<longrightarrow>
        (fst (unlikeFeed fm rh u feed_id w) = Inr True) =
          (liked \<and> (\<forall>m. fst (rh_del rh (likeCountKey (trim feed_id)) (cache w)) \<noteq> Throws m)))"
    by (cases liked)
      (simp_all add: likeFeed_persists likeFeed_already unlikeFeed_persists unlikeFeed_not_liked
        returned_iff)
  show ?thesis
    using never exactly likeFeed_twice [of fm feed_id w f u r s' rh]
      unlikeFeed_twice [of fm feed_id w f u r s' rh]
    by (simp add: likeFeed_persists likeFeed_already unlikeFeed_persists unlikeFeed_not_liked
        returned_iff)
qed

theorem like_state_machine_witness:
  "likeContract refFeedModel \<and>
   fm_checkLikeStatus refFeedModel ''alice'' (trim '' 1 '') (store exampleWorld) = Inr False \<and>
   fst (likeFeed refFeedModel refRedisHandle ''alice'' '' 1 '' exampleWorld) = Inr True \<and>
   fm_checkLikeStatus refFeedModel ''alice'' ''1''
     (store (snd (likeFeed refFeedModel refRedisHandle ''alice'' '' 1 '' exampleWorld))) = Inr True \<and>
   fst (likeFeed refFeedModel refRedisHandle ''alice'' '' 1 ''
          (snd (likeFeed refFeedModel refRedisHandle ''alice'' '' 1 '' exampleWorld)))
     = Inl ''Already liked this feed'' \<and>
   fm_checkLikeStatus refFeedModel ''bob'' (trim ''1'') (store exampleWorld) = Inr True \<and>
   fst (likeFeed refFeedModel refRedisHandle ''bob'' ''1'' exampleWorld)
     = Inl ''Already liked this feed'' \<and>
   fst (unlikeFeed refFeedModel refRedisHandle ''bob'' ''1'' exampleWorld) = Inr True \<and>
   fst (unlikeFeed refFeedModel refRedisHandle ''bob'' ''1''
          (snd (unlikeFeed refFeedModel refRedisHandle ''bob'' ''1'' exampleWorld)))
     = Inl ''Not liked this feed before, cannot unlike'' \<and>
   fst (unlikeFeed refFeedModel refRedisHandle ''alice'' '' 1 '' exampleWorld)
     = Inl ''Not liked this feed before, cannot unlike'' \<and>
   fm_getFeedById refFeedModel (trim ''7'') (store exampleWorld) = Inr None \<and>
   fst (likeFeed refFeedModel refRedisHandle ''bob'' ''7'' exampleWorld) = Inl ''Feed not found'' \<and>
   fst (unlikeFeed refFeedModel refRedisHandle ''bob'' ''7'' exampleWorld) = Inl ''Feed not found'' \<and>
   fst (likeFeed refFeedModel brokenRedisHandle ''alice'' '' 1 '' exampleWorld)
     = Inl ''redisHandle.del is not a function'' \<and>
   fm_checkLikeStatus refFeedModel ''alice'' ''1''
     (store (snd (likeFeed refFeedModel brokenRedisHandle ''alice'' '' 1 '' exampleWorld)))
     = Inr True"
proof -
  let ?f = "\<lparr>f_feed_id = ''1'', f_firebase_uid = ''alice'', f_description = ''hello''\<rparr>"
  have ex: "fm_getFeedById refFeedModel (trim '' 1 '') (store exampleWorld) = Inr (Some ?f)"
    "fm_getFeedById refFeedModel (trim ''1'') (store exampleWorld) = Inr (Some ?f)"
    "fm_getFeedById refFeedModel (trim ''7'') (store exampleWorld) = Inr None"
    by (simp_all add: eval_defs)
  have st: "fm_checkLikeStatus refFeedModel ''alice'' (trim '' 1 '') (store exampleWorld) = Inr False"
    "fm_checkLikeStatus refFeedModel ''bob'' (trim ''1'') (store exampleWorld) = Inr True"
    by (simp_all add: eval_defs)
  have ok: "fm_likeFeed refFeedModel ''alice'' (trim '' 1 '') (store exampleWorld)
      = (Inr 1, exampleStore\<lparr>rs_likes := [(''bob'', ''1''), (''alice'', ''1'')]\<rparr>)"
    "fm_unlikeFeed refFeedModel ''bob'' (trim ''1'') (store exampleWorld)
      = (Inr 1, exampleStore\<lparr>rs_likes := []\<rparr>)"
    by (simp_all add: eval_defs)
  have del: "fst (rh_del refRedisHandle (likeCountKey (trim '' 1 '')) (cache exampleWorld)) = Fulfils"
    "fst (rh_del refRedisHandle (likeCountKey (trim ''1'')) (cache exampleWorld)) = Fulfils"
    "fst (rh_del brokenRedisHandle (likeCountKey (trim '' 1 '')) (cache exampleWorld))
       = Throws ''redisHandle.del is not a function''"
    by (simp_all add: refRedisHandle_def brokenRedisHandle_def)
  have after: "fm_checkLikeStatus refFeedModel ''alice'' ''1''
      (exampleStore\<lparr>rs_likes := [(''bob'', ''1''), (''alice'', ''1'')]\<rparr>) = Inr True"
    by (simp add: eval_defs)
  note alice = like_state_machine [of refFeedModel "'' 1 ''" exampleWorld ?f "''alice''" 1
      "exampleStore\<lparr>rs_likes := [(''bob'', ''1''), (''alice'', ''1'')]\<rparr>" refRedisHandle False]
  note bob = like_state_machine [of refFeedModel "''1''" exampleWorld ?f "''bob''" 1
      "exampleStore\<lparr>rs_likes := []\<rparr>" refRedisHandle True]
  note nobody = like_state_machine [of refFeedModel "''7''" exampleWorld ?f "''bob''" 1
      "exampleStore" refRedisHandle True]
  note broken = like_state_machine [of refFeedModel "'' 1 ''" exampleWorld ?f "''alice''" 1
      "exampleStore\<lparr>rs_likes := [(''bob'', ''1''), (''alice'', ''1'')]\<rparr>" brokenRedisHandle
      False]
  from alice bob nobody broken ex st ok del after refFeedModel_likeContract show ?thesis
    by simp
qed

section \<open>Failures\<close>





























section \<open>Invalidation\<close>

lemma keys_differ: "likeCountKey a \<noteq> commentCountKey b"
proof
  assume "likeCountKey a = commentCountKey b"
  then have "rev (a @ '':likeCount'') = rev (b @ '':commentCount'')"
    by (simp add: likeCountKey_def commentCountKey_def)
  then show False by simp
qed

lemma likeCountKey_inj: "likeCountKey a = likeCountKey b \<longleftrightarrow> a = b"
  by (simp add: likeCountKey_def)

lemma refRedisHandle_delRemoves: "delRemoves refRedisHandle"
  by (simp add: delRemoves_def refRedisHandle_def)

lemma refRedisHandle_delFrame: "delFrame refRedisHandle"
  by (simp add: delFrame_def refRedisHandle_def)

lemma refRedisHandle_setexReturns: "setexReturns refRedisHandle"
  by (simp add: setexReturns_def refRedisHandle_def)

lemma readThrough_returns: "setexReturns rh \<Longrightarrow> readThrough rh key c r = r"
  unfolding setexReturns_def readThrough_def
  by (auto split: sum.splits number.splits fate.splits)

lemma like_miss_reads_store:
  "rh_get rh (likeCountKey (trim feed_id)) (cache w) = Inr None \<Longrightarrow>
   fst (getLikeCount fm rh feed_id w) =
     readThrough rh (likeCountKey (trim feed_id)) (cache w)
       (authoritativeLikeCount fm (trim feed_id) (store w))"
  by (simp add: getLikeCount_def getLikeCount_try_def prog_defs authoritativeLikeCount_def
      readThrough_def split: sum.splits option.splits prod.splits fate.splits)

lemma comment_miss_reads_store:
  "rh_get rh (commentCountKey (trim feed_id)) (cache w) = Inr None \<Longrightarrow>
   fst (getCommentCount fm rh feed_id w) =
     readThrough rh (commentCountKey (trim feed_id)) (cache w)
       (authoritativeCommentCount fm (trim feed_id) (store w))"
  by (simp add: getCommentCount_def getCommentCount_try_def prog_defs
      authoritativeCommentCount_def readThrough_def
      split: sum.splits option.splits prod.splits fate.splits)

lemma both_deleted:
  assumes "delRemoves rh" and "delFrame rh"
  shows "rh_get rh (likeCountKey a) (snd (rh_del rh (commentCountKey a) (snd (rh_del rh (likeCountKey a) c))))
           = Inr None"
    and "rh_get rh (commentCountKey a) (snd (rh_del rh (commentCountKey a) (snd (rh_del rh (likeCountKey a) c))))
           = Inr None"
  using assms keys_differ [of a a] unfolding delRemoves_def delFrame_def by simp_all

text \<open>
  C9. A successful \<open>likeFeed\<close> or \<open>unlikeFeed\<close> makes one call to the Cache, the \<open>del\<close>
  of the like-count key of the trimmed feed id, after the three calls to the Store. Over
  a Cache in which deleting a key leaves every other key as it reads, every other key
  reads as before: the comment-count key of every feed, and the like-count key of every
  other feed.
\<close>

theorem like_invalidates_like_count_only:
  "(likeFeed fm rh firebase_uid feed_id w = (Inr b, w') \<longrightarrow>
      calls w' = calls w @ [FM_getFeedById (trim feed_id),
        FM_checkLikeStatus firebase_uid (trim feed_id), FM_likeFeed firebase_uid (trim feed_id),
        RH_del (likeCountKey (trim feed_id))] \<and>
      cache w' = snd (rh_del rh (likeCountKey (trim feed_id)) (cache w)) \<and>
      (delFrame rh \<longrightarrow>
         (\<forall>key. key \<noteq> likeCountKey (trim feed_id) \<longrightarrow>
            rh_get rh key (cache w') = rh_get rh key (cache w)) \<and>
         (\<forall>g. rh_get rh (commentCountKey g) (cache w') = rh_get rh (commentCountKey g) (cache w)) \<and>
         (\<forall>g. g \<noteq> trim feed_id \<longrightarrow>
            rh_get rh (likeCountKey g) (cache w') = rh_get rh (likeCountKey g) (cache w)))) \<and>
   (unlikeFeed fm rh firebase_uid feed_id w = (Inr b, w') \<longrightarrow>
      calls w' = calls w @ [FM_getFeedById (trim feed_id),
        FM_checkLikeStatus firebase_uid (trim feed_id), FM_unlikeFeed firebase_uid (trim feed_id),
        RH_del (likeCountKey (trim feed_id))] \<and>
      cache w' = snd (rh_del rh (likeCountKey (trim feed_id)) (cache w)) \<and>
      (delFrame rh \<longrightarrow>
         (\<forall>key. key \<noteq> likeCountKey (trim feed_id) \<longrightarrow>
            rh_get rh key (cache w') = rh_get rh key (cache w)) \<and>
         (\<forall>g. rh_get rh (commentCountKey g) (cache w') = rh_get rh (commentCountKey g) (cache w)) \<and>
         (\<forall>g. g \<noteq> trim feed_id \<longrightarrow>
            rh_get rh (likeCountKey g) (cache w') = rh_get rh (likeCountKey g) (cache w))))"
proof -
  have frame: "delFrame rh \<longrightarrow>
         (\<forall>key. key \<noteq> likeCountKey (trim feed_id) \<longrightarrow>
            rh_get rh key (cache w') = rh_get rh key (cache w)) \<and>
         (\<forall>g. rh_get rh (commentCountKey g) (cache w') = rh_get rh (commentCountKey g) (cache w)) \<and>
         (\<forall>g. g \<noteq> trim feed_id \<longrightarrow>
            rh_get rh (likeCountKey g) (cache w') = rh_get rh (likeCountKey g) (cache w))"
    if "cache w' = snd (rh_del rh (likeCountKey (trim feed_id)) (cache w))"
    using that keys_differ [of "trim feed_id"] unfolding delFrame_def
    by (metis likeCountKey_inj)
  have like: "calls w' = calls w @ [FM_getFeedById (trim feed_id),
        FM_checkLikeStatus firebase_uid (trim feed_id), FM_likeFeed firebase_uid (trim feed_id),
        RH_del (likeCountKey (trim feed_id))] \<and>
      cache w' = snd (rh_del rh (likeCountKey (trim feed_id)) (cache w))"
    if "likeFeed fm rh firebase_uid feed_id w = (Inr b, w')"
    using that
    by (auto simp: likeFeed_def likeFeed_try_def prog_defs
        split: sum.splits option.splits if_splits prod.splits fate.splits)
  have unlike: "calls w' = calls w @ [FM_getFeedById (trim feed_id),
        FM_checkLikeStatus firebase_uid (trim feed_id), FM_unlikeFeed firebase_uid (trim feed_id),
        RH_del (likeCountKey (trim feed_id))] \<and>
      cache w' = snd (rh_del rh (likeCountKey (trim feed_id)) (cache w))"
    if "unlikeFeed fm rh firebase_uid feed_id w = (Inr b, w')"
    using that
    by (auto simp: unlikeFeed_def unlikeFeed_try_def prog_defs
        split: sum.splits option.splits if_splits prod.splits fate.splits)
  from frame like unlike show ?thesis by blast
qed


theorem like_invalidates_like_count_only_witness:
  "delFrame refRedisHandle \<and>
   fst (likeFeed refFeedModel refRedisHandle ''alice'' ''1''
          (exampleWorld\<lparr>cache := exampleCache(commentCountKey ''1'' \<mapsto> (600, ''2''))\<rparr>))
     = Inr True \<and>
   rh_get refRedisHandle (likeCountKey ''1'')
     (cache (snd (likeFeed refFeedModel refRedisHandle ''alice'' ''1''
          (exampleWorld\<lparr>cache := exampleCache(commentCountKey ''1'' \<mapsto> (600, ''2''))\<rparr>))))
     = Inr None \<and>
   rh_get refRedisHandle (commentCountKey ''1'')
     (cache (snd (likeFeed refFeedModel refRedisHandle ''alice'' ''1''
          (exampleWorld\<lparr>cache := exampleCache(commentCountKey ''1'' \<mapsto> (600, ''2''))\<rparr>))))
     = Inr (Some ''2'') \<and>
   rh_get refRedisHandle (likeCountKey ''7'')
     (cache (snd (likeFeed refFeedModel refRedisHandle ''alice'' ''1''
          (exampleWorld\<lparr>cache := exampleCache(commentCountKey ''1'' \<mapsto> (600, ''2''))\<rparr>))))
     = Inr (Some ''9007199254740993'') \<and>
   fst (unlikeFeed refFeedModel refRedisHandle ''bob'' ''1''
          (exampleWorld\<lparr>cache := exampleCache(commentCountKey ''1'' \<mapsto> (600, ''2''))\<rparr>))
     = Inr True \<and>
   rh_get refRedisHandle (likeCountKey ''1'')
     (cache (snd (unlikeFeed refFeedModel refRedisHandle ''bob'' ''1''
          (exampleWorld\<lparr>cache := exampleCache(commentCountKey ''1'' \<mapsto> (600, ''2''))\<rparr>))))
     = Inr None \<and>
   rh_get refRedisHandle (commentCountKey ''1'')
     (cache (snd (unlikeFeed refFeedModel refRedisHandle ''bob'' ''1''
          (exampleWorld\<lparr>cache := exampleCache(commentCountKey ''1'' \<mapsto> (600, ''2''))\<rparr>))))
     = Inr (Some ''2'') \<and>
   rh_get refRedisHandle (likeCountKey ''7'')
     (cache (snd (unlikeFeed refFeedModel refRedisHandle ''bob'' ''1''
          (exampleWorld\<lparr>cache := exampleCache(commentCountKey ''1'' \<mapsto> (600, ''2''))\<rparr>))))
     = Inr (Some ''9007199254740993'')"
proof -
  let ?w = "exampleWorld\<lparr>cache := exampleCache(commentCountKey ''1'' \<mapsto> (600, ''2''))\<rparr>"
  let ?l = "likeFeed refFeedModel refRedisHandle ''alice'' ''1'' ?w"
  let ?u = "unlikeFeed refFeedModel refRedisHandle ''bob'' ''1'' ?w"
  have tr: "trim ''1'' = ''1''" by (simp add: eval_defs)
  have before: "rh_get refRedisHandle (commentCountKey ''1'') (cache ?w) = Inr (Some ''2'')"
    "rh_get refRedisHandle (likeCountKey ''7'') (cache ?w) = Inr (Some ''9007199254740993'')"
    by (simp_all add: eval_defs)
  have gone: "rh_get refRedisHandle (likeCountKey ''1'')
      (snd (rh_del refRedisHandle (likeCountKey ''1'') (cache ?w))) = Inr None"
    by (simp add: refRedisHandle_def)
  have "fst ?l = Inr True"
    by (simp add: likeFeed_def likeFeed_try_def prog_defs eval_defs)
  then have l: "?l = (Inr True, snd ?l)" by (simp add: prod_eq_iff)
  have "fst ?u = Inr True"
    by (simp add: unlikeFeed_def unlikeFeed_try_def prog_defs eval_defs)
  then have u: "?u = (Inr True, snd ?u)" by (simp add: prod_eq_iff)
  note like = like_invalidates_like_count_only [of refFeedModel refRedisHandle "''alice''" "''1''"
      ?w True "snd ?l"]
  note unlike = like_invalidates_like_count_only [of refFeedModel refRedisHandle "''bob''" "''1''"
      ?w True "snd ?u"]
  have seven: "''7'' \<noteq> ''1''" by simp
  from like l refRedisHandle_delFrame tr before gone seven
  have a: "fst ?l = Inr True \<and>
      rh_get refRedisHandle (likeCountKey ''1'') (cache (snd ?l)) = Inr None \<and>
      rh_get refRedisHandle (commentCountKey ''1'') (cache (snd ?l)) = Inr (Some ''2'') \<and>
      rh_get refRedisHandle (likeCountKey ''7'') (cache (snd ?l)) = Inr (Some ''9007199254740993'')"
    by (metis fst_conv)
  from unlike u refRedisHandle_delFrame tr before gone seven
  have b: "fst ?u = Inr True \<and>
      rh_get refRedisHandle (likeCountKey ''1'') (cache (snd ?u)) = Inr None \<and>
      rh_get refRedisHandle (commentCountKey ''1'') (cache (snd ?u)) = Inr (Some ''2'') \<and>
      rh_get refRedisHandle (likeCountKey ''7'') (cache (snd ?u)) = Inr (Some ''9007199254740993'')"
    by (metis fst_conv)
  from a b refRedisHandle_delFrame show ?thesis by blast
qed

lemma createFeed_invalidates:
  assumes "createFeed fm rh firebase_uid description imageUrls w = (Inr feedId, w')"
  shows "calls w' = calls w @ FM_createFeed firebase_uid description #
           (case imageUrls of Some (u # us) \<Rightarrow> [FM_addFeedImages feedId (u # us)] | _ \<Rightarrow> []) @
           [RH_del (likeCountKey feedId), RH_del (commentCountKey feedId)] \<and>
         cache w' = snd (rh_del rh (commentCountKey feedId) (snd (rh_del rh (likeCountKey feedId) (cache w))))"
  using assms
  by (auto simp: createFeed_def createFeed_try_def prog_defs
      split: sum.splits option.splits if_splits prod.splits fate.splits list.splits)

lemma updateFeed_invalidates:
  assumes "updateFeed fm rh feed_id firebase_uid description w = (Inr r, w')"
  shows "calls w' = calls w @ [FM_getFeedById (trim feed_id), RH_del (likeCountKey (trim feed_id)),
           RH_del (commentCountKey (trim feed_id)), FM_updateFeed (trim feed_id) description] \<and>
         cache w' = snd (rh_del rh (commentCountKey (trim feed_id))
           (snd (rh_del rh (likeCountKey (trim feed_id)) (cache w))))"
  using assms
  by (auto simp: updateFeed_def updateFeed_try_def prog_defs
      split: sum.splits option.splits if_splits prod.splits fate.splits)

lemma deleteFeed_invalidates:
  assumes "deleteFeed fm rh feed_id firebase_uid w = (Inr r, w')"
  shows "calls w' = calls w @ [FM_getFeedById (trim feed_id), RH_del (likeCountKey (trim feed_id)),
           RH_del (commentCountKey (trim feed_id)), FM_deleteFeed (trim feed_id)] \<and>
         cache w' = snd (rh_del rh (commentCountKey (trim feed_id))
           (snd (rh_del rh (likeCountKey (trim feed_id)) (cache w))))"
  using assms
  by (auto simp: deleteFeed_def deleteFeed_try_def prog_defs
      split: sum.splits option.splits if_splits prod.splits fate.splits)

lemma likeFeed_invalidates:
  assumes "likeFeed fm rh firebase_uid feed_id w = (Inr b, w')"
  shows "calls w' = calls w @ [FM_getFeedById (trim feed_id),
           FM_checkLikeStatus firebase_uid (trim feed_id), FM_likeFeed firebase_uid (trim feed_id),
           RH_del (likeCountKey (trim feed_id))] \<and>
         cache w' = snd (rh_del rh (likeCountKey (trim feed_id)) (cache w))"
  using assms
  by (auto simp: likeFeed_def likeFeed_try_def prog_defs
      split: sum.splits option.splits if_splits prod.splits fate.splits)

lemma unlikeFeed_invalidates:
  assumes "unlikeFeed fm rh firebase_uid feed_id w = (Inr b, w')"
  shows "calls w' = calls w @ [FM_getFeedById (trim feed_id),
           FM_checkLikeStatus firebase_uid (trim feed_id), FM_unlikeFeed firebase_uid (trim feed_id),
           RH_del (likeCountKey (trim feed_id))] \<and>
         cache w' = snd (rh_del rh (likeCountKey (trim feed_id)) (cache w))"
  using assms
  by (auto simp: unlikeFeed_def unlikeFeed_try_def prog_defs
      split: sum.splits option.splits if_splits prod.splits fate.splits)

lemma reads_after_both_deleted:
  assumes "delRemoves rh" and "delFrame rh"
    and "cache w' = snd (rh_del rh (commentCountKey (trim feed_id))
           (snd (rh_del rh (likeCountKey (trim feed_id)) c)))"
  shows "fst (getLikeCount fm rh feed_id w') =
           readThrough rh (likeCountKey (trim feed_id)) (cache w')
             (authoritativeLikeCount fm (trim feed_id) (store w')) \<and>
         fst (getCommentCount fm rh feed_id w') =
           readThrough rh (commentCountKey (trim feed_id)) (cache w')
             (authoritativeCommentCount fm (trim feed_id) (store w')) \<and>
         (setexReturns rh \<longrightarrow>
            fst (getLikeCount fm rh feed_id w') = authoritativeLikeCount fm (trim feed_id) (store w') \<and>
            fst (getCommentCount fm rh feed_id w')
              = authoritativeCommentCount fm (trim feed_id) (store w'))"
  using assms both_deleted [of rh "trim feed_id" c]
  by (simp add: like_miss_reads_store comment_miss_reads_store readThrough_returns)

lemma read_after_like_deleted:
  assumes "delRemoves rh"
    and "cache w' = snd (rh_del rh (likeCountKey (trim feed_id)) c)"
  shows "fst (getLikeCount fm rh feed_id w') =
           readThrough rh (likeCountKey (trim feed_id)) (cache w')
             (authoritativeLikeCount fm (trim feed_id) (store w')) \<and>
         (setexReturns rh \<longrightarrow>
            fst (getLikeCount fm rh feed_id w') = authoritativeLikeCount fm (trim feed_id) (store w'))"
  using assms unfolding delRemoves_def
  by (simp add: like_miss_reads_store readThrough_returns)

text \<open>
  C1. A successful \<open>createFeed\<close> (for the id it returns), \<open>updateFeed\<close> and
  \<open>deleteFeed\<close> call \<open>del\<close> on the like-count and the comment-count key of the feed,
  and a successful \<open>likeFeed\<close> and \<open>unlikeFeed\<close> call \<open>del\<close> on its like-count key,
  before they return. Over a Cache in which a deleted key reads as absent (and, where two
  keys are deleted, deleting one leaves the other as it reads), the next read of a
  counter whose key was deleted goes to the Store as the mutation left it: it yields the
  authoritative count, not a value cached before, or it fails with the message that the
  \<open>setex\<close> call throws; over a Cache whose \<open>setex\<close> call returns, it is the authoritative
  count.
\<close>

theorem mutations_invalidate_counters:
  "(createFeed fm rh firebase_uid description imageUrls w = (Inr feedId, w') \<longrightarrow>
      calls w' = calls w @ FM_createFeed firebase_uid description #
        (case imageUrls of Some (u # us) \<Rightarrow> [FM_addFeedImages feedId (u # us)] | _ \<Rightarrow> []) @
        [RH_del (likeCountKey feedId), RH_del (commentCountKey feedId)] \<and>
      cache w' = snd (rh_del rh (commentCountKey feedId)
        (snd (rh_del rh (likeCountKey feedId) (cache w)))) \<and>
      (delRemoves rh \<and> delFrame rh \<and> trim feedId = feedId \<longrightarrow>
         fst (getLikeCount fm rh feedId w') =
           readThrough rh (likeCountKey feedId) (cache w')
             (authoritativeLikeCount fm feedId (store w')) \<and>
         fst (getCommentCount fm rh feedId w') =
           readThrough rh (commentCountKey feedId) (cache w')
             (authoritativeCommentCount fm feedId (store w')) \<and>
         (setexReturns rh \<longrightarrow>
            fst (getLikeCount fm rh feedId w') = authoritativeLikeCount fm feedId (store w') \<and>
            fst (getCommentCount fm rh feedId w')
              = authoritativeCommentCount fm feedId (store w')))) \<and>
   (updateFeed fm rh feed_id firebase_uid description w = (Inr r, w') \<longrightarrow>
      calls w' = calls w @ [FM_getFeedById (trim feed_id), RH_del (likeCountKey (trim feed_id)),
        RH_del (commentCountKey (trim feed_id)), FM_updateFeed (trim feed_id) description] \<and>
      cache w' = snd (rh_del rh (commentCountKey (trim feed_id))
        (snd (rh_del rh (likeCountKey (trim feed_id)) (cache w)))) \<and>
      (delRemoves rh \<and> delFrame rh \<longrightarrow>
         fst (getLikeCount fm rh feed_id w') =
           readThrough rh (likeCountKey (trim feed_id)) (cache w')
             (authoritativeLikeCount fm (trim feed_id) (store w')) \<and>
         fst (getCommentCount fm rh feed_id w') =
           readThrough rh (commentCountKey (trim feed_id)) (cache w')
             (authoritativeCommentCount fm (trim feed_id) (store w')) \<and>
         (setexReturns rh \<longrightarrow>
            fst (getLikeCount fm rh feed_id w') = authoritativeLikeCount fm (trim feed_id) (store w') \<and>
            fst (getCommentCount fm rh feed_id w')
              = authoritativeCommentCount fm (trim feed_id) (store w')))) \<and>
   (deleteFeed fm rh feed_id firebase_uid w = (Inr r, w') \<longrightarrow>
      calls w' = calls w @ [FM_getFeedById (trim feed_id), RH_del (likeCountKey (trim feed_id)),
        RH_del (commentCountKey (trim feed_id)), FM_deleteFeed (trim feed_id)] \<and>
      cache w' = snd (rh_del rh (commentCountKey (trim feed_id))
        (snd (rh_del rh (likeCountKey (trim feed_id)) (cache w)))) \<and>
      (delRemoves rh \<and> delFrame rh \<longrightarrow>
         fst (getLikeCount fm rh feed_id w') =
           readThrough rh (likeCountKey (trim feed_id)) (cache w')
             (authoritativeLikeCount fm (trim feed_id) (store w')) \<and>
         fst (getCommentCount fm rh feed_id w') =
           readThrough rh (commentCountKey (trim feed_id)) (cache w')
             (authoritativeCommentCount fm (trim feed_id) (store w')) \<and>
         (setexReturns rh \<longrightarrow>
            fst (getLikeCount fm rh feed_id w') = authoritativeLikeCount fm (trim feed_id) (store w') \<and>
            fst (getCommentCount fm rh feed_id w')
              = authoritativeCommentCount fm (trim feed_id) (store w')))) \<and>
   (likeFeed fm rh firebase_uid feed_id w = (Inr b, w') \<longrightarrow>
      calls w' = calls w @ [FM_getFeedById (trim feed_id),
        FM_checkLikeStatus firebase_uid (trim feed_id), FM_likeFeed firebase_uid (trim feed_id),
        RH_del (likeCountKey (trim feed_id))] \<and>
      cache w' = snd (rh_del rh (likeCountKey (trim feed_id)) (cache w)) \<and>
      (delRemoves rh \<longrightarrow>
         fst (getLikeCount fm rh feed_id w') =
           readThrough rh (likeCountKey (trim feed_id)) (cache w')
             (authoritativeLikeCount fm (trim feed_id) (store w')) \<and>
         (setexReturns rh \<longrightarrow>
            fst (getLikeCount fm rh feed_id w') = authoritativeLikeCount fm (trim feed_id) (store w')))) \<and>
   (unlikeFeed fm rh firebase_uid feed_id w = (Inr b, w') \<longrightarrow>
      calls w' = calls w @ [FM_getFeedById (trim feed_id),
        FM_checkLikeStatus firebase_uid (trim feed_id), FM_unlikeFeed firebase_uid (trim feed_id),
        RH_del (likeCountKey (trim feed_id))] \<and>
      cache w' = snd (rh_del rh (likeCountKey (trim feed_id)) (cache w)) \<and>
      (delRemoves rh \<longrightarrow>
         fst (getLikeCount fm rh feed_id w') =
           readThrough rh (likeCountKey (trim feed_id)) (cache w')
             (authoritativeLikeCount fm (trim feed_id) (store w')) \<and>
         (setexReturns rh \<longrightarrow>
            fst (getLikeCount fm rh feed_id w') = authoritativeLikeCount fm (trim feed_id) (store w'))))"
proof -
  have created: "delRemoves rh \<and> delFrame rh \<and> trim feedId = feedId \<longrightarrow>
         fst (getLikeCount fm rh feedId w') =
           readThrough rh (likeCountKey feedId) (cache w')
             (authoritativeLikeCount fm feedId (store w')) \<and>
         fst (getCommentCount fm rh feedId w') =
           readThrough rh (commentCountKey feedId) (cache w')
             (authoritativeCommentCount fm feedId (store w')) \<and>
         (setexReturns rh \<longrightarrow>
            fst (getLikeCount fm rh feedId w') = authoritativeLikeCount fm feedId (store w') \<and>
            fst (getCommentCount fm rh feedId w')
              = authoritativeCommentCount fm feedId (store w'))"
    if "cache w' = snd (rh_del rh (commentCountKey feedId)
        (snd (rh_del rh (likeCountKey feedId) (cache w))))"
    using that reads_after_both_deleted [of rh w' feedId "cache w" fm] by auto
  have both: "delRemoves rh \<and> delFrame rh \<longrightarrow>
         fst (getLikeCount fm rh feed_id w') =
           readThrough rh (likeCountKey (trim feed_id)) (cache w')
             (authoritativeLikeCount fm (trim feed_id) (store w')) \<and>
         fst (getCommentCount fm rh feed_id w') =
           readThrough rh (commentCountKey (trim feed_id)) (cache w')
             (authoritativeCommentCount fm (trim feed_id) (store w')) \<and>
         (setexReturns rh \<longrightarrow>
            fst (getLikeCount fm rh feed_id w') = authoritativeLikeCount fm (trim feed_id) (store w') \<and>
            fst (getCommentCount fm rh feed_id w')
              = authoritativeCommentCount fm (trim feed_id) (store w'))"
    if "cache w' = snd (rh_del rh (commentCountKey (trim feed_id))
        (snd (rh_del rh (likeCountKey (trim feed_id)) (cache w))))"
    using that reads_after_both_deleted [of rh w' feed_id "cache w" fm] by auto
  have one: "delRemoves rh \<longrightarrow>
         fst (getLikeCount fm rh feed_id w') =
           readThrough rh (likeCountKey (trim feed_id)) (cache w')
             (authoritativeLikeCount fm (trim feed_id) (store w')) \<and>
         (setexReturns rh \<longrightarrow>
            fst (getLikeCount fm rh feed_id w') = authoritativeLikeCount fm (trim feed_id) (store w'))"
    if "cache w' = snd (rh_del rh (likeCountKey (trim feed_id)) (cache w))"
    using that read_after_like_deleted [of rh w' feed_id "cache w" fm] by auto
  show ?thesis
    using created both one
      createFeed_invalidates [of fm rh firebase_uid description imageUrls w feedId w']
      updateFeed_invalidates [of fm rh feed_id firebase_uid description w r w']
      deleteFeed_invalidates [of fm rh feed_id firebase_uid w r w']
      likeFeed_invalidates [of fm rh firebase_uid feed_id w b w']
      unlikeFeed_invalidates [of fm rh firebase_uid feed_id w b w']
    by blast
qed

theorem mutations_invalidate_counters_witness:
  "delRemoves refRedisHandle \<and> delFrame refRedisHandle \<and> setexReturns refRedisHandle \<and>
   fst (getLikeCount refFeedModel refRedisHandle ''1'' exampleWorld) = Inr (Num 5) \<and>
   fst (createFeed refFeedModel refRedisHandle ''carol'' ''new'' (Some [''x.jpg'']) exampleWorld)
     = Inr ''4'' \<and>
   calls (snd (createFeed refFeedModel refRedisHandle ''carol'' ''new'' (Some [''x.jpg''])
       exampleWorld))
     = [FM_createFeed ''carol'' ''new'', FM_addFeedImages ''4'' [''x.jpg''],
        RH_del ''feed:4:likeCount'', RH_del ''feed:4:commentCount''] \<and>
   fst (getLikeCount refFeedModel refRedisHandle ''4''
     (snd (createFeed refFeedModel refRedisHandle ''carol'' ''new'' (Some [''x.jpg''])
       exampleWorld))) = Inr (Num 0) \<and>
   fst (updateFeed refFeedModel refRedisHandle ''1'' ''alice'' ''edited'' exampleWorld) = Inr 1 \<and>
   calls (snd (updateFeed refFeedModel refRedisHandle ''1'' ''alice'' ''edited'' exampleWorld))
     = [FM_getFeedById ''1'', RH_del ''feed:1:likeCount'', RH_del ''feed:1:commentCount'',
        FM_updateFeed ''1'' ''edited''] \<and>
   fst (getLikeCount refFeedModel refRedisHandle ''1''
     (snd (updateFeed refFeedModel refRedisHandle ''1'' ''alice'' ''edited'' exampleWorld)))
     = Inr (Num 1) \<and>
   fst (getCommentCount refFeedModel refRedisHandle ''1''
     (snd (updateFeed refFeedModel refRedisHandle ''1'' ''alice'' ''edited'' exampleWorld)))
     = Inr (Num 2) \<and>
   fst (deleteFeed refFeedModel refRedisHandle ''1'' ''alice'' exampleWorld) = Inr 1 \<and>
   calls (snd (deleteFeed refFeedModel refRedisHandle ''1'' ''alice'' exampleWorld))
     = [FM_getFeedById ''1'', RH_del ''feed:1:likeCount'', RH_del ''feed:1:commentCount'',
        FM_deleteFeed ''1''] \<and>
   fst (getLikeCount refFeedModel refRedisHandle ''1''
     (snd (deleteFeed refFeedModel refRedisHandle ''1'' ''alice'' exampleWorld)))
     = Inl ''Feed not found'' \<and>
   fst (likeFeed refFeedModel refRedisHandle ''alice'' ''1'' exampleWorld) = Inr True \<and>
   fst (getLikeCount refFeedModel refRedisHandle ''1''
     (snd (likeFeed refFeedModel refRedisHandle ''alice'' ''1'' exampleWorld))) = Inr (Num 2) \<and>
   fst (unlikeFeed refFeedModel refRedisHandle ''bob'' ''1'' exampleWorld) = Inr True \<and>
   fst (getLikeCount refFeedModel refRedisHandle ''1''
     (snd (unlikeFeed refFeedModel refRedisHandle ''bob'' ''1'' exampleWorld))) = Inr (Num 0)"
proof -
  let ?c = "createFeed refFeedModel refRedisHandle ''carol'' ''new'' (Some [''x.jpg'']) exampleWorld"
  let ?u = "updateFeed refFeedModel refRedisHandle ''1'' ''alice'' ''edited'' exampleWorld"
  let ?d = "deleteFeed refFeedModel refRedisHandle ''1'' ''alice'' exampleWorld"
  let ?l = "likeFeed refFeedModel refRedisHandle ''alice'' ''1'' exampleWorld"
  let ?n = "unlikeFeed refFeedModel refRedisHandle ''bob'' ''1'' exampleWorld"
  have tr: "trim ''1'' = ''1''" "trim ''4'' = ''4''" "calls exampleWorld = []"
    by (simp_all add: eval_defs)
  have stale: "fst (getLikeCount refFeedModel refRedisHandle ''1'' exampleWorld) = Inr (Num 5)"
    by (simp add: getLikeCount_def getLikeCount_try_def prog_defs eval_defs)
  have fc: "fst ?c = Inr ''4''"
    by (simp add: createFeed_def createFeed_try_def prog_defs eval_defs)
  then have c: "?c = (Inr ''4'', snd ?c)" by (simp add: prod_eq_iff)
  have cs: "authoritativeLikeCount refFeedModel ''4'' (store (snd ?c)) = Inr (Num 0)"
    by (simp add: authoritativeLikeCount_def createFeed_def createFeed_try_def prog_defs eval_defs)
  have fu: "fst ?u = Inr 1"
    by (simp add: updateFeed_def updateFeed_try_def prog_defs eval_defs)
  then have u: "?u = (Inr 1, snd ?u)" by (simp add: prod_eq_iff)
  have us: "authoritativeLikeCount refFeedModel ''1'' (store (snd ?u)) = Inr (Num 1)"
    "authoritativeCommentCount refFeedModel ''1'' (store (snd ?u)) = Inr (Num 2)"
    by (simp_all add: authoritativeLikeCount_def authoritativeCommentCount_def updateFeed_def
        updateFeed_try_def prog_defs eval_defs)
  have fd: "fst ?d = Inr 1"
    by (simp add: deleteFeed_def deleteFeed_try_def prog_defs eval_defs)
  then have d: "?d = (Inr 1, snd ?d)" by (simp add: prod_eq_iff)
  have ds: "authoritativeLikeCount refFeedModel ''1'' (store (snd ?d)) = Inl ''Feed not found''"
    by (simp add: authoritativeLikeCount_def deleteFeed_def deleteFeed_try_def prog_defs eval_defs)
  have fl: "fst ?l = Inr True"
    by (simp add: likeFeed_def likeFeed_try_def prog_defs eval_defs)
  then have l: "?l = (Inr True, snd ?l)" by (simp add: prod_eq_iff)
  have ls: "authoritativeLikeCount refFeedModel ''1'' (store (snd ?l)) = Inr (Num 2)"
    by (simp add: authoritativeLikeCount_def likeFeed_def likeFeed_try_def prog_defs eval_defs)
  have fn: "fst ?n = Inr True"
    by (simp add: unlikeFeed_def unlikeFeed_try_def prog_defs eval_defs)
  then have n: "?n = (Inr True, snd ?n)" by (simp add: prod_eq_iff)
  have ns: "authoritativeLikeCount refFeedModel ''1'' (store (snd ?n)) = Inr (Num 0)"
    by (simp add: authoritativeLikeCount_def unlikeFeed_def unlikeFeed_try_def prog_defs eval_defs)
  note con = refRedisHandle_delRemoves refRedisHandle_delFrame refRedisHandle_setexReturns
  note created = mutations_invalidate_counters [where fm = refFeedModel and rh = refRedisHandle
      and firebase_uid = "''carol''" and description = "''new''" and imageUrls = "Some [''x.jpg'']"
      and w = exampleWorld and feedId = "''4''" and w' = "snd ?c" and feed_id = "''1''"
      and r = 1 and b = True, THEN conjunct1, THEN mp, OF c]
  have a1: "calls (snd ?c) = [FM_createFeed ''carol'' ''new'', FM_addFeedImages ''4'' [''x.jpg''],
        RH_del ''feed:4:likeCount'', RH_del ''feed:4:commentCount''] \<and>
      fst (getLikeCount refFeedModel refRedisHandle ''4'' (snd ?c)) = Inr (Num 0)"
    using created con tr cs by (simp add: likeCountKey_def commentCountKey_def readThrough_returns)
  note updated = mutations_invalidate_counters [where fm = refFeedModel and rh = refRedisHandle
      and firebase_uid = "''alice''" and description = "''edited''" and imageUrls = None
      and w = exampleWorld and feedId = "''4''" and w' = "snd ?u" and feed_id = "''1''"
      and r = 1 and b = True, THEN conjunct2, THEN conjunct1, THEN mp, OF u]
  have a2: "calls (snd ?u) = [FM_getFeedById ''1'', RH_del ''feed:1:likeCount'',
        RH_del ''feed:1:commentCount'', FM_updateFeed ''1'' ''edited''] \<and>
      fst (getLikeCount refFeedModel refRedisHandle ''1'' (snd ?u)) = Inr (Num 1) \<and>
      fst (getCommentCount refFeedModel refRedisHandle ''1'' (snd ?u)) = Inr (Num 2)"
    using updated con tr us by (simp add: likeCountKey_def commentCountKey_def readThrough_returns)
  note deleted = mutations_invalidate_counters [where fm = refFeedModel and rh = refRedisHandle
      and firebase_uid = "''alice''" and description = "''edited''" and imageUrls = None
      and w = exampleWorld and feedId = "''4''" and w' = "snd ?d" and feed_id = "''1''"
      and r = 1 and b = True, THEN conjunct2, THEN conjunct2, THEN conjunct1, THEN mp, OF d]
  have a3: "calls (snd ?d) = [FM_getFeedById ''1'', RH_del ''feed:1:likeCount'',
        RH_del ''feed:1:commentCount'', FM_deleteFeed ''1''] \<and>
      fst (getLikeCount refFeedModel refRedisHandle ''1'' (snd ?d)) = Inl ''Feed not found''"
    using deleted con tr ds by (simp add: likeCountKey_def commentCountKey_def readThrough_returns)
  note liked = mutations_invalidate_counters [where fm = refFeedModel and rh = refRedisHandle
      and firebase_uid = "''alice''" and description = "''edited''" and imageUrls = None
      and w = exampleWorld and feedId = "''4''" and w' = "snd ?l" and feed_id = "''1''"
      and r = 1 and b = True, THEN conjunct2, THEN conjunct2, THEN conjunct2, THEN conjunct1,
      THEN mp, OF l]
  have a4: "fst (getLikeCount refFeedModel refRedisHandle ''1'' (snd ?l)) = Inr (Num 2)"
    using liked con tr ls by (simp add: readThrough_returns)
  note unliked = mutations_invalidate_counters [where fm = refFeedModel and rh = refRedisHandle
      and firebase_uid = "''bob''" and description = "''edited''" and imageUrls = None
      and w = exampleWorld and feedId = "''4''" and w' = "snd ?n" and feed_id = "''1''"
      and r = 1 and b = True, THEN conjunct2, THEN conjunct2, THEN conjunct2, THEN conjunct2,
      THEN mp, OF n]
  have a5: "fst (getLikeCount refFeedModel refRedisHandle ''1'' (snd ?n)) = Inr (Num 0)"
    using unliked con tr ns by (simp add: readThrough_returns)
  from con stale fc fu fd fl fn a1 a2 a3 a4 a5 show ?thesis by blast
qed

section \<open>Trimming of the feed id\<close>

text \<open>
  C10. \<open>getFeedById\<close>, \<open>updateFeed\<close>, \<open>deleteFeed\<close>, \<open>likeFeed\<close>, \<open>unlikeFeed\<close>,
  \<open>checkLikeStatus\<close>, \<open>getLikeCount\<close> and \<open>getCommentCount\<close> depend on the feed id
  through its trimmed form only: two ids with the same trimmed form give the same
  operation, and \<open>updateFeed\<close> looks the feed up under the trimmed id. \<open>updateFeedImage\<close>
  and \<open>deleteFeedImage\<close> look the feed up under the id as given. Hence there is an id
  with white space around it, naming an existing feed once trimmed, for which
  \<open>updateFeed\<close> succeeds while \<open>updateFeedImage\<close> and \<open>deleteFeedImage\<close> fail with
  \<open>Feed not found\<close> (over the reference Store, which compares ids exactly).
\<close>

theorem image_operations_do_not_trim:
  "(trim a = trim b \<longrightarrow>
      getFeedById fm rh a = getFeedById fm rh b \<and>
      updateFeed fm rh a firebase_uid description = updateFeed fm rh b firebase_uid description \<and>
      deleteFeed fm rh a firebase_uid = deleteFeed fm rh b firebase_uid \<and>
      likeFeed fm rh firebase_uid a = likeFeed fm rh firebase_uid b \<and>
      unlikeFeed fm rh firebase_uid a = unlikeFeed fm rh firebase_uid b \<and>
      checkLikeStatus fm rh firebase_uid a = checkLikeStatus fm rh firebase_uid b \<and>
      getLikeCount fm rh a = getLikeCount fm rh b \<and>
      getCommentCount fm rh a = getCommentCount fm rh b) \<and>
   (\<exists>rest. calls (snd (updateFeed fm rh feed_id firebase_uid description w))
      = calls w @ FM_getFeedById (trim feed_id) # rest) \<and>
   (\<exists>rest. calls (snd (updateFeedImage fm rh firebase_uid feed_id image_id newImageUrl w))
      = calls w @ FM_getFeedById feed_id # rest) \<and>
   (\<exists>rest. calls (snd (deleteFeedImage fm rh firebase_uid feed_id image_id w))
      = calls w @ FM_getFeedById feed_id # rest) \<and>
   (\<exists>padded f r.
      trim padded \<noteq> padded \<and>
      fm_getFeedById refFeedModel (trim padded) (store exampleWorld) = Inr (Some f) \<and>
      fst (updateFeed refFeedModel refRedisHandle padded ''alice'' ''edited'' exampleWorld) = Inr r \<and>
      fst (updateFeedImage refFeedModel refRedisHandle ''alice'' padded ''2'' ''c.jpg'' exampleWorld)
        = Inl ''Feed not found'' \<and>
      fst (deleteFeedImage refFeedModel refRedisHandle ''alice'' padded ''2'' exampleWorld)
        = Inl ''Feed not found'')"
proof (intro conjI)
  show "trim a = trim b \<longrightarrow>
      getFeedById fm rh a = getFeedById fm rh b \<and>
      updateFeed fm rh a firebase_uid description = updateFeed fm rh b firebase_uid description \<and>
      deleteFeed fm rh a firebase_uid = deleteFeed fm rh b firebase_uid \<and>
      likeFeed fm rh firebase_uid a = likeFeed fm rh firebase_uid b \<and>
      unlikeFeed fm rh firebase_uid a = unlikeFeed fm rh firebase_uid b \<and>
      checkLikeStatus fm rh firebase_uid a = checkLikeStatus fm rh firebase_uid b \<and>
      getLikeCount fm rh a = getLikeCount fm rh b \<and>
      getCommentCount fm rh a = getCommentCount fm rh b"
    by (simp add: getFeedById_def getFeedById_try_def updateFeed_def updateFeed_try_def
        deleteFeed_def deleteFeed_try_def likeFeed_def likeFeed_try_def unlikeFeed_def
        unlikeFeed_try_def checkLikeStatus_def checkLikeStatus_try_def getLikeCount_def
        getLikeCount_try_def getCommentCount_def getCommentCount_try_def Let_def)
next
  show "\<exists>rest. calls (snd (updateFeed fm rh feed_id firebase_uid description w))
      = calls w @ FM_getFeedById (trim feed_id) # rest"
    by (auto simp: updateFeed_def updateFeed_try_def prog_defs
        split: sum.splits option.splits prod.splits fate.splits)
next
  show "\<exists>rest. calls (snd (updateFeedImage fm rh firebase_uid feed_id image_id newImageUrl w))
      = calls w @ FM_getFeedById feed_id # rest"
    by (auto simp: updateFeedImage_def updateFeedImage_try_def prog_defs
        split: sum.splits option.splits prod.splits fate.splits)
next
  show "\<exists>rest. calls (snd (deleteFeedImage fm rh firebase_uid feed_id image_id w))
      = calls w @ FM_getFeedById feed_id # rest"
    by (auto simp: deleteFeedImage_def deleteFeedImage_try_def prog_defs
        split: sum.splits option.splits prod.splits fate.splits)
next
  have "trim '' 1 '' \<noteq> '' 1 '' \<and>
      fm_getFeedById refFeedModel (trim '' 1 '') (store exampleWorld) =
        Inr (Some \<lparr>f_feed_id = ''1'', f_firebase_uid = ''alice'', f_description = ''hello''\<rparr>) \<and>
      fst (updateFeed refFeedModel refRedisHandle '' 1 '' ''alice'' ''edited'' exampleWorld) = Inr 1 \<and>
      fst (updateFeedImage refFeedModel refRedisHandle ''alice'' '' 1 '' ''2'' ''c.jpg'' exampleWorld)
        = Inl ''Feed not found'' \<and>
      fst (deleteFeedImage refFeedModel refRedisHandle ''alice'' '' 1 '' ''2'' exampleWorld)
        = Inl ''Feed not found''"
    by (simp add: updateFeed_def updateFeed_try_def updateFeedImage_def updateFeedImage_try_def
        deleteFeedImage_def deleteFeedImage_try_def prog_defs eval_defs)
  then show "\<exists>padded f r.
      trim padded \<noteq> padded \<and>
      fm_getFeedById refFeedModel (trim padded) (store exampleWorld) = Inr (Some f) \<and>
      fst (updateFeed refFeedModel refRedisHandle padded ''alice'' ''edited'' exampleWorld) = Inr r \<and>
      fst (updateFeedImage refFeedModel refRedisHandle ''alice'' padded ''2'' ''c.jpg'' exampleWorld)
        = Inl ''Feed not found'' \<and>
      fst (deleteFeedImage refFeedModel refRedisHandle ''alice'' padded ''2'' exampleWorld)
        = Inl ''Feed not found''"
    by blast
qed

theorem image_operations_do_not_trim_witness:
  "trim '' 1 '' = trim ''1'' \<and>
   updateFeed refFeedModel refRedisHandle '' 1 '' ''alice'' ''edited'' exampleWorld
     = updateFeed refFeedModel refRedisHandle ''1'' ''alice'' ''edited'' exampleWorld \<and>
   getLikeCount refFeedModel refRedisHandle '' 1 '' exampleWorld
     = getLikeCount refFeedModel refRedisHandle ''1'' exampleWorld \<and>
   fst (updateFeedImage refFeedModel refRedisHandle ''alice'' ''1'' ''2'' ''c.jpg'' exampleWorld)
     = Inr 1 \<and>
   fst (updateFeedImage refFeedModel refRedisHandle ''alice'' '' 1 '' ''2'' ''c.jpg'' exampleWorld)
     = Inl ''Feed not found''"
proof -
  have tr: "trim '' 1 '' = trim ''1''" by (simp add: eval_defs)
  note same = image_operations_do_not_trim [where a = "'' 1 ''" and b = "''1''"
      and fm = refFeedModel and rh = refRedisHandle and firebase_uid = "''alice''"
      and description = "''edited''" and feed_id = "''1''" and w = exampleWorld
      and image_id = "''2''" and newImageUrl = "''c.jpg''", THEN conjunct1, THEN mp, OF tr]
  have img: "fst (updateFeedImage refFeedModel refRedisHandle ''alice'' ''1'' ''2'' ''c.jpg''
        exampleWorld) = Inr 1"
    "fst (updateFeedImage refFeedModel refRedisHandle ''alice'' '' 1 '' ''2'' ''c.jpg'' exampleWorld)
      = Inl ''Feed not found''"
    by (simp_all add: updateFeedImage_def updateFeedImage_try_def prog_defs eval_defs)
  from tr same img show ?thesis by simp
qed


end
